theory Spec2Isabelle
  imports Complex_Main
begin

section \<open>JavaScript numbers\<close>

text \<open>
  A JavaScript number is modelled as an exact real, one of the two infinities, or NaN.
  The arithmetic below is the arithmetic of ECMAScript on these values with exact
  results: rounding to binary64, overflow of a finite result and the sign of zero are
  outside the model.
\<close>

datatype jsnum = NaN | NegInf | Num real | PosInf

fun truthy :: "jsnum \<Rightarrow> bool" where
  "truthy NaN = False"
| "truthy (Num x) = (x \<noteq> 0)"
| "truthy _ = True"

text \<open>\<open>x || 0\<close> on a number.\<close>

definition or_zero :: "jsnum \<Rightarrow> jsnum" where
  "or_zero x = (if truthy x then x else Num 0)"

fun js_lt :: "jsnum \<Rightarrow> jsnum \<Rightarrow> bool" where
  "js_lt NaN _ = False"
| "js_lt _ NaN = False"
| "js_lt (Num a) (Num b) = (a < b)"
| "js_lt NegInf NegInf = False"
| "js_lt NegInf _ = True"
| "js_lt _ NegInf = False"
| "js_lt PosInf _ = False"
| "js_lt _ PosInf = True"

definition js_gt :: "jsnum \<Rightarrow> jsnum \<Rightarrow> bool" where
  "js_gt a b = js_lt b a"

definition js_le :: "jsnum \<Rightarrow> jsnum \<Rightarrow> bool" where
  "js_le a b = (a \<noteq> NaN \<and> b \<noteq> NaN \<and> \<not> js_lt b a)"

definition js_ge :: "jsnum \<Rightarrow> jsnum \<Rightarrow> bool" where
  "js_ge a b = js_le b a"

text \<open>The sign of a value that is not NaN, and the infinity of a given sign.\<close>

fun js_sign :: "jsnum \<Rightarrow> real" where
  "js_sign (Num a) = sgn a"
| "js_sign PosInf = 1"
| "js_sign NegInf = - 1"
| "js_sign NaN = 0"

definition inf_of_sign :: "real \<Rightarrow> jsnum" where
  "inf_of_sign s = (if 0 < s then PosInf else if s < 0 then NegInf else NaN)"

fun js_neg :: "jsnum \<Rightarrow> jsnum" where
  "js_neg NaN = NaN"
| "js_neg (Num a) = Num (- a)"
| "js_neg PosInf = NegInf"
| "js_neg NegInf = PosInf"

fun js_add :: "jsnum \<Rightarrow> jsnum \<Rightarrow> jsnum" where
  "js_add NaN _ = NaN"
| "js_add _ NaN = NaN"
| "js_add (Num a) (Num b) = Num (a + b)"
| "js_add (Num a) y = y"
| "js_add x (Num b) = x"
| "js_add x y = (if x = y then x else NaN)"

definition js_sub :: "jsnum \<Rightarrow> jsnum \<Rightarrow> jsnum" where
  "js_sub x y = js_add x (js_neg y)"

fun js_mul :: "jsnum \<Rightarrow> jsnum \<Rightarrow> jsnum" where
  "js_mul NaN _ = NaN"
| "js_mul _ NaN = NaN"
| "js_mul (Num a) (Num b) = Num (a * b)"
| "js_mul x y = inf_of_sign (js_sign x * js_sign y)"

text \<open>
  Division: a finite value over an infinity is zero, an infinity over an infinity and
  zero over zero are NaN, and a nonzero value over zero is the infinity of the sign of
  the dividend (the divisor taken as positive zero).
\<close>

fun js_div :: "jsnum \<Rightarrow> jsnum \<Rightarrow> jsnum" where
  "js_div NaN _ = NaN"
| "js_div _ NaN = NaN"
| "js_div (Num a) (Num b) = (if b = 0 then inf_of_sign (sgn a) else Num (a / b))"
| "js_div (Num a) _ = Num 0"
| "js_div x (Num b) = inf_of_sign (js_sign x * (if b < 0 then - 1 else 1))"
| "js_div _ _ = NaN"

text \<open>\<open>Math.min\<close> and \<open>Math.max\<close> of two arguments: NaN if either is NaN.\<close>

definition Math_min :: "jsnum \<Rightarrow> jsnum \<Rightarrow> jsnum" where
  "Math_min a b = (if a = NaN \<or> b = NaN then NaN else if js_lt b a then b else a)"

definition Math_max :: "jsnum \<Rightarrow> jsnum \<Rightarrow> jsnum" where
  "Math_max a b = (if a = NaN \<or> b = NaN then NaN else if js_lt a b then b else a)"

text \<open>\<open>Math.round\<close>: the nearest integer, a tie going up.\<close>

fun Math_round :: "jsnum \<Rightarrow> jsnum" where
  "Math_round (Num a) = Num (of_int \<lfloor>a + 1 / 2\<rfloor>)"
| "Math_round x = x"

fun is_finite :: "jsnum \<Rightarrow> bool" where
  "is_finite (Num a) = True"
| "is_finite _ = False"

section \<open>JavaScript strings\<close>

text \<open>
  A string is a list of code units; the model has the code units below 256. White space
  is what \<open>\s\<close> and the trimming of \<open>parseFloat\<close> recognise there: TAB, LF, VT, FF,
  CR, space and the no-break space.
\<close>

definition is_ws :: "char \<Rightarrow> bool" where
  "is_ws c = (c \<in> set [CHR 0x09, CHR 0x0A, CHR 0x0B, CHR 0x0C, CHR 0x0D, CHR 0x20, CHR 0xA0])"

definition is_digit :: "char \<Rightarrow> bool" where
  "is_digit c = (c \<in> set ''0123456789'')"

text \<open>A word character of a regular expression, \<open>[A-Za-z0-9_]\<close>.\<close>

definition is_word :: "char \<Rightarrow> bool" where
  "is_word c = (c \<in> set ''abcdefghijklmnopqrstuvwxyzABCDEFGHIJKLMNOPQRSTUVWXYZ0123456789_'')"

definition digit_val :: "char \<Rightarrow> nat" where
  "digit_val c = of_char c - 48"

definition digits_val :: "string \<Rightarrow> nat" where
  "digits_val ds = foldl (\<lambda>a c. 10 * a + digit_val c) 0 ds"

fun starts_with :: "string \<Rightarrow> string \<Rightarrow> bool" where
  "starts_with s [] = True"
| "starts_with [] (p # ps) = False"
| "starts_with (c # cs) (p # ps) = (c = p \<and> starts_with cs ps)"

text \<open>\<open>s.includes(p)\<close>.\<close>

fun str_includes :: "string \<Rightarrow> string \<Rightarrow> bool" where
  "str_includes [] p = (p = [])"
| "str_includes (c # cs) p = (starts_with (c # cs) p \<or> str_includes cs p)"

text \<open>\<open>s.replace(/\s/g, '')\<close>.\<close>

definition strip_ws :: "string \<Rightarrow> string" where
  "strip_ws s = filter (\<lambda>c. \<not> is_ws c) s"

text \<open>\<open>s.replace(/\D/g, '')\<close>.\<close>

definition strip_non_digits :: "string \<Rightarrow> string" where
  "strip_non_digits s = filter is_digit s"

text \<open>\<open>s.replace(',', '.')\<close>: a string pattern replaces the first occurrence only.\<close>

fun replace_comma :: "string \<Rightarrow> string" where
  "replace_comma [] = []"
| "replace_comma (c # cs) = (if c = CHR '','' then CHR ''.'' # cs else c # replace_comma cs)"

text \<open>\<open>s.substring(i, j)\<close> for \<open>i \<le> j\<close>, and \<open>s.substring(i)\<close>.\<close>

definition substring :: "string \<Rightarrow> nat \<Rightarrow> nat \<Rightarrow> string" where
  "substring s i j = take (j - i) (drop i s)"

definition substring_from :: "string \<Rightarrow> nat \<Rightarrow> string" where
  "substring_from s i = drop i s"

subsection \<open>parseFloat\<close>

text \<open>
  \<open>parseFloat\<close> skips leading white space and reads the longest prefix that is a
  decimal literal: an optional sign, then \<open>Infinity\<close> or digits with an optional
  fraction and an optional exponent. It yields NaN if there is no such prefix.
\<close>

text \<open>The exponent part: \<open>e\<close> or \<open>E\<close>, an optional sign and at least one digit.\<close>

definition exponent_part :: "string \<Rightarrow> int" where
  "exponent_part s =
     (case s of
        [] \<Rightarrow> 0
      | e # r \<Rightarrow>
          if e = CHR ''e'' \<or> e = CHR ''E'' then
            (case r of
               [] \<Rightarrow> 0
             | g # r' \<Rightarrow>
                 if g = CHR ''+'' \<or> g = CHR ''-'' then
                   (if takeWhile is_digit r' = [] then 0
                    else (if g = CHR ''-'' then - 1 else 1) * int (digits_val (takeWhile is_digit r')))
                 else int (digits_val (takeWhile is_digit r)))
          else 0)"

definition scale10 :: "real \<Rightarrow> int \<Rightarrow> real" where
  "scale10 x e = (if 0 \<le> e then x * 10 ^ nat e else x / 10 ^ nat (- e))"

definition unsigned_literal :: "string \<Rightarrow> jsnum" where
  "unsigned_literal s =
     (if starts_with s ''Infinity'' then PosInf
      else
        let ip = takeWhile is_digit s;
            r1 = dropWhile is_digit s;
            has_dot = (r1 \<noteq> [] \<and> hd r1 = CHR ''.'');
            fp = (if has_dot then takeWhile is_digit (tl r1) else []);
            r2 = (if has_dot then dropWhile is_digit (tl r1) else r1)
        in if ip = [] \<and> fp = [] then NaN
           else Num (scale10 (real (digits_val ip) + real (digits_val fp) / 10 ^ length fp)
                       (exponent_part r2)))"

definition parseFloat :: "string \<Rightarrow> jsnum" where
  "parseFloat s =
     (case dropWhile is_ws s of
        [] \<Rightarrow> NaN
      | c # cs \<Rightarrow>
          if c = CHR ''-'' then js_neg (unsigned_literal cs)
          else if c = CHR ''+'' then unsigned_literal cs
          else unsigned_literal (c # cs))"

subsection \<open>Numbers as text\<close>

text \<open>The character of a digit below ten.\<close>

definition digit_char :: "nat \<Rightarrow> char" where
  "digit_char d = ''0123456789'' ! d"

fun show_nat :: "nat \<Rightarrow> string" where
  "show_nat n = (if n < 10 then [digit_char n] else show_nat (n div 10) @ [digit_char (n mod 10)])"

declare show_nat.simps [simp del]

definition show_int :: "int \<Rightarrow> string" where
  "show_int i = (if i < 0 then CHR ''-'' # show_nat (nat (- i)) else show_nat (nat i))"

text \<open>
  The text of a number, as \<open>String(x)\<close> and the assignment of a number to the
  \<open>value\<close> of an element give it. The pages below apply it to results of
  \<open>Math.round\<close> only, and the model is the decimal notation of an integer below
  \<open>10^21\<close>; the digits of a number that is not an integer are not modelled.
\<close>

fun js_toString :: "jsnum \<Rightarrow> string" where
  "js_toString NaN = ''NaN''"
| "js_toString PosInf = ''Infinity''"
| "js_toString NegInf = ''-Infinity''"
| "js_toString (Num a) = show_int \<lfloor>a\<rfloor>"

text \<open>
  \<open>x.toFixed(f)\<close>: the integer \<open>n\<close> nearest to \<open>x * 10^f\<close>, the larger one at a
  tie, written with \<open>f\<close> digits after the point (notation for values below \<open>10^21\<close>).
\<close>

definition pad_zeros :: "nat \<Rightarrow> string \<Rightarrow> string" where
  "pad_zeros k s = replicate (k - length s) CHR ''0'' @ s"

definition toFixed_abs :: "nat \<Rightarrow> real \<Rightarrow> string" where
  "toFixed_abs f x =
     (let m = pad_zeros (f + 1) (show_nat (nat \<lfloor>x * 10 ^ f + 1 / 2\<rfloor>));
          k = length m - f
      in if f = 0 then m else take k m @ ''.'' @ drop k m)"

fun toFixed :: "nat \<Rightarrow> jsnum \<Rightarrow> string" where
  "toFixed f NaN = ''NaN''"
| "toFixed f PosInf = ''Infinity''"
| "toFixed f NegInf = ''-Infinity''"
| "toFixed f (Num a) = (if a < 0 then CHR ''-'' # toFixed_abs f (- a) else toFixed_abs f a)"

declare toFixed.simps [simp del]

section \<open>The stake form (main.js)\<close>

text \<open>
  The state of the page: the \<open>value\<close> of each of the six elements that the script
  looks up, and the flag \<open>_userModified\<close> that it keeps on \<open>stakeDisplay\<close>. The
  elements exist: the script registers listeners on them before its first calculation.
  Output to the console is not part of the state.
\<close>

record main_page =
  bankInput :: string
  oddsInput :: string
  probInput :: string
  kellySelect :: string
  stakeInput :: string
  stakeDisplay :: string
  userModified :: bool

text \<open>
  \<open>getFloatValue(element)\<close>; the argument is \<open>None\<close> for a missing element and
  the \<open>value\<close> of the element otherwise.
\<close>

definition getFloatValue :: "string option \<Rightarrow> jsnum" where
  "getFloatValue element =
     (case element of
        None \<Rightarrow> Num 0
      | Some v \<Rightarrow> if v = [] then Num 0 else or_zero (parseFloat (replace_comma (strip_ws v))))"

definition roundToHundreds :: "jsnum \<Rightarrow> jsnum" where
  "roundToHundreds v = js_mul (Math_round (js_div v (Num 100))) (Num 100)"

text \<open>
  \<open>formatNumberWithSpaces\<close> replaces every match of
  \<open>/\B(?=(\d{3})+(?!\d))/g\<close> by a space. The pattern matches the empty string at a
  position that is followed by a run of digits whose length is a positive multiple of
  three and that is not a word boundary, that is, preceded by a word character.
\<close>

definition group_here :: "char \<Rightarrow> string \<Rightarrow> bool" where
  "group_here prev rest =
     (let n = length (takeWhile is_digit rest) in is_word prev \<and> 0 < n \<and> n mod 3 = 0)"

fun add_spaces :: "char \<Rightarrow> string \<Rightarrow> string" where
  "add_spaces prev [] = []"
| "add_spaces prev (c # cs) =
     (if group_here prev (c # cs) then CHR '' '' # c # add_spaces c cs else c # add_spaces c cs)"

definition formatNumberWithSpaces :: "jsnum \<Rightarrow> string" where
  "formatNumberWithSpaces v =
     (case js_toString v of [] \<Rightarrow> [] | c # cs \<Rightarrow> c # add_spaces c cs)"

text \<open>The four numbers \<open>calculateStake\<close> reads (lines 35 to 38).\<close>

definition stake_bank :: "main_page \<Rightarrow> jsnum" where
  "stake_bank s = getFloatValue (Some (bankInput s))"

definition stake_odds :: "main_page \<Rightarrow> jsnum" where
  "stake_odds s = getFloatValue (Some (oddsInput s))"

definition stake_prob :: "main_page \<Rightarrow> jsnum" where
  "stake_prob s = getFloatValue (Some (probInput s))"

definition stake_fraction :: "main_page \<Rightarrow> jsnum" where
  "stake_fraction s = or_zero (parseFloat (kellySelect s))"

text \<open>The condition of line 40.\<close>

definition stake_valid :: "jsnum \<Rightarrow> jsnum \<Rightarrow> jsnum \<Rightarrow> bool" where
  "stake_valid bank odds prob =
     (js_gt odds (Num 1) \<and> js_gt prob (Num 0) \<and> js_le prob (Num 100) \<and> js_gt bank (Num 0))"

text \<open>The stake before rounding (lines 42 to 51).\<close>

definition stake_kelly :: "jsnum \<Rightarrow> jsnum \<Rightarrow> jsnum \<Rightarrow> jsnum \<Rightarrow> jsnum" where
  "stake_kelly bank odds prob fraction =
     (let p = js_div prob (Num 100);
          fullKelly = js_div (js_sub (js_mul p odds) (Num 1)) (js_sub odds (Num 1));
          limitedKelly = Math_max (Num 0) (Math_min fullKelly (Num 1));
          stake = js_mul (js_mul bank limitedKelly) fraction
      in stake)"

definition calculateStake :: "main_page \<Rightarrow> main_page" where
  "calculateStake s =
     (let bank = stake_bank s;
          odds = stake_odds s;
          prob = stake_prob s;
          fraction = stake_fraction s
      in if stake_valid bank odds prob then
           (let stake = stake_kelly bank odds prob fraction;
                roundedStake = roundToHundreds stake
            in if \<not> userModified s then
                 s\<lparr>stakeInput := js_toString roundedStake,
                   stakeDisplay := formatNumberWithSpaces roundedStake\<rparr>
               else s)
         else if \<not> userModified s then s\<lparr>stakeInput := ''0'', stakeDisplay := ''0''\<rparr>
         else s)"

text \<open>The listener of \<open>input\<close> on \<open>stakeDisplay\<close> (lines 79 to 83).\<close>

definition stakeDisplay_input :: "main_page \<Rightarrow> main_page" where
  "stakeDisplay_input s = s\<lparr>userModified := True, stakeInput := strip_ws (stakeDisplay s)\<rparr>"

definition recalcWithFlag :: "main_page \<Rightarrow> main_page" where
  "recalcWithFlag s = calculateStake (s\<lparr>userModified := False\<rparr>)"

text \<open>
  The events of the page: the user changes the text of a field, the browser stores it
  and runs the listener registered for the field (lines 79 and 90 to 93). \<open>Loaded\<close>
  is the end of the \<open>DOMContentLoaded\<close> handler (lines 95 and 96).
\<close>

datatype main_event =
  EditStake string | EditBank string | EditOdds string | EditProb string
| SelectKelly string | Loaded

fun main_step :: "main_event \<Rightarrow> main_page \<Rightarrow> main_page" where
  "main_step (EditStake v) s = stakeDisplay_input (s\<lparr>stakeDisplay := v\<rparr>)"
| "main_step (EditBank v) s = recalcWithFlag (s\<lparr>bankInput := v\<rparr>)"
| "main_step (EditOdds v) s = recalcWithFlag (s\<lparr>oddsInput := v\<rparr>)"
| "main_step (EditProb v) s = recalcWithFlag (s\<lparr>probInput := v\<rparr>)"
| "main_step (SelectKelly v) s = recalcWithFlag (s\<lparr>kellySelect := v\<rparr>)"
| "main_step Loaded s = recalcWithFlag s"

section \<open>The Kelly calculator page (bet_records.js)\<close>

text \<open>
  The error texts of \<open>calculate\<close>, in the order of the source: the odds must be
  greater than 1.01; the probability cannot be computed; the probability must be from
  0.1% to 99.9%; the bank must be at least 100.
\<close>

datatype message = OddsMessage | NoProbabilityMessage | ProbabilityMessage | BankMessage

text \<open>
  The state of the page. The first four fields are the \<open>value\<close> of the elements
  \<open>odds\<close>, \<open>probability\<close>, \<open>bank\<close> and \<open>kelly_fraction\<close>. The others are what
  the script writes: the error text (\<open>None\<close> before the first error), the
  \<open>display\<close> style of the two blocks, and the contents of the result block.
  A text that the script builds from \<open>toFixed\<close> is kept as text. Where it hands a
  number to \<open>Intl.NumberFormat\<close> or to the conversion of a number to text, the field
  keeps that number: \<open>resultBank\<close> and \<open>recommendedStake\<close> are amounts shown with
  the rouble sign, \<open>resultKelly\<close> is the multiplier, \<open>progressFill_width\<close> a
  percentage. \<open>roiIndicator\<close> is \<open>None\<close> while the element is not in the document,
  and otherwise whether its class is \<open>positive\<close> and the figure after its label.
  All the elements that the script looks up by id, and the result grid, are assumed to
  exist.
\<close>

record calc_page =
  calc_odds :: string
  calc_probability :: string
  calc_bank :: string
  calc_kelly_fraction :: string
  errorMessage :: "message option"
  errorBlock_display :: string
  resultBlock_display :: string
  resultProb :: string
  resultOdds :: string
  resultBank :: jsnum
  resultKelly :: jsnum
  roiIndicator :: "(bool \<times> string) option"
  recommendedStake :: jsnum
  stakePercent :: string
  progressPercent :: string
  progressFill_width :: jsnum

definition DEFAULT_ROI :: jsnum where
  "DEFAULT_ROI = Num 5"

text \<open>\<open>calculateDefaultProbability\<close>; \<open>None\<close> is \<open>null\<close>.\<close>

definition calculateDefaultProbability :: "calc_page \<Rightarrow> jsnum option" where
  "calculateDefaultProbability s =
     (let odds = parseFloat (calc_odds s)
      in if \<not> truthy odds \<or> js_lt odds (Num (101 / 100)) then None
         else
           let p = js_div (js_add (Num 1) (js_div DEFAULT_ROI (Num 100))) odds;
               probPercent = js_mul p (Num 100)
           in Some (Math_min probPercent (Num (999 / 10))))"

definition showError :: "message \<Rightarrow> calc_page \<Rightarrow> calc_page" where
  "showError m s =
     s\<lparr>errorMessage := Some m, errorBlock_display := ''flex'', resultBlock_display := ''none''\<rparr>"

definition hideError :: "calc_page \<Rightarrow> calc_page" where
  "hideError s = s\<lparr>errorBlock_display := ''none''\<rparr>"

text \<open>\<open>formatNumber(value)\<close> hands \<open>Math.round(value)\<close> to the number format.\<close>

definition formatNumber :: "jsnum \<Rightarrow> jsnum" where
  "formatNumber v = Math_round v"

text \<open>
  The first part of \<open>calculate\<close> (lines 156 to 186): it reads the four numbers and
  checks them. The result is the error to show, or the numbers \<open>odds\<close>, \<open>prob\<close>,
  \<open>bank\<close> and \<open>fraction\<close> that the rest of the function uses; either comes with the
  page, whose probability field line 171 may have filled in.
\<close>

definition calculate_inputs ::
  "calc_page \<Rightarrow> message \<times> calc_page + (jsnum \<times> jsnum \<times> jsnum \<times> jsnum) \<times> calc_page" where
  "calculate_inputs s =
     (let odds = parseFloat (calc_odds s);
          prob = parseFloat (calc_probability s);
          bank = parseFloat (calc_bank s);
          fraction = parseFloat (calc_kelly_fraction s)
      in if \<not> truthy odds \<or> js_lt odds (Num (101 / 100)) then Inl (OddsMessage, s)
         else
           case (if \<not> truthy prob \<or> js_le prob (Num 0) then
                   (case calculateDefaultProbability s of
                      None \<Rightarrow> None
                    | Some defaultProb \<Rightarrow>
                        if truthy defaultProb
                        then Some (defaultProb, s\<lparr>calc_probability := toFixed 1 defaultProb\<rparr>)
                        else None)
                 else Some (prob, s)) of
             None \<Rightarrow> Inl (NoProbabilityMessage, s)
           | Some (prob, s1) \<Rightarrow>
               if js_le prob (Num 0) \<or> js_ge prob (Num 100) then Inl (ProbabilityMessage, s1)
               else if \<not> truthy bank \<or> js_lt bank (Num 100) then Inl (BankMessage, s1)
               else Inr ((odds, prob, bank, fraction), s1))"

text \<open>Lines 190 to 194: \<open>stakeKelly\<close> and the stake before rounding.\<close>

definition calc_kelly :: "jsnum \<Rightarrow> jsnum \<Rightarrow> jsnum \<Rightarrow> jsnum \<Rightarrow> jsnum \<times> jsnum" where
  "calc_kelly odds prob bank fraction =
     (let p = js_div prob (Num 100);
          fullKelly = js_div (js_sub (js_mul p odds) (Num 1)) (js_sub odds (Num 1));
          limitedKelly = Math_max (Num 0) (Math_min fullKelly (Num 1));
          stakeKelly = js_mul limitedKelly fraction;
          stake = js_mul bank stakeKelly
      in (stakeKelly, stake))"

definition calculate :: "calc_page \<Rightarrow> bool \<times> calc_page" where
  "calculate s =
     (case calculate_inputs s of
        Inl (m, s1) \<Rightarrow> (False, showError m s1)
      | Inr ((odds, prob, bank, fraction), s1) \<Rightarrow>
          let s2 = hideError s1;
              p = js_div prob (Num 100);
              stakeKelly = fst (calc_kelly odds prob bank fraction);
              stake = snd (calc_kelly odds prob bank fraction);
              roundedStake = js_mul (Math_round (js_div stake (Num 100))) (Num 100);
              stakePercent' = toFixed 2 (js_mul stakeKelly (Num 100));
              currentRoi = js_mul (js_sub (js_mul p odds) (Num 1)) (Num 100);
              progressWidth = Math_min (js_mul stakeKelly (Num 100)) (Num 100)
          in (True,
              s2\<lparr>resultProb := toFixed 1 prob @ ''%'',
                 resultOdds := toFixed 2 odds,
                 resultBank := formatNumber bank,
                 resultKelly := fraction,
                 roiIndicator :=
                   Some (js_gt currentRoi (Num 0),
                         (if js_gt currentRoi (Num 0) then ''+'' else [])
                           @ toFixed 1 currentRoi @ ''%''),
                 recommendedStake := formatNumber roundedStake,
                 stakePercent := stakePercent' @ ''%'',
                 progressPercent := toFixed 1 progressWidth @ ''%'',
                 progressFill_width := progressWidth,
                 resultBlock_display := ''block''\<rparr>))"

text \<open>
  The clamped Kelly fraction, which \<open>calculateStake\<close> (lines 42 to 48 of main.js)
  and \<open>calculate\<close> (lines 190 to 192 of bet_records.js) compute by the same
  operations in the same order. It serves to state how the two stakes are related.
\<close>

definition limitedKelly :: "jsnum \<Rightarrow> jsnum \<Rightarrow> jsnum" where
  "limitedKelly odds prob =
     (let p = js_div prob (Num 100);
          fullKelly = js_div (js_sub (js_mul p odds) (Num 1)) (js_sub odds (Num 1))
      in Math_max (Num 0) (Math_min fullKelly (Num 1)))"

section \<open>The telephone mask (scripts.js)\<close>

text \<open>
  The text that the \<open>input\<close> listener computes from the text of the field
  (lines 45 to 55).
\<close>

definition phone_mask :: "string \<Rightarrow> string" where
  "phone_mask input_value =
     (let value0 = strip_non_digits input_value;
          value = (if 0 < length value0 \<and> (hd value0 = CHR ''7'' \<or> hd value0 = CHR ''8'')
                   then substring_from value0 1 else value0);
          f0 = ''+7 '';
          f1 = (if 0 < length value then f0 @ ''('' @ substring value 0 3 else f0);
          f2 = (if 3 \<le> length value then f1 @ '') '' @ substring value 3 6 else f1);
          f3 = (if 6 \<le> length value then f2 @ ''-'' @ substring value 6 8 else f2);
          f4 = (if 8 \<le> length value then f3 @ ''-'' @ substring value 8 10 else f3)
      in f4)"

text \<open>
  The listener itself: it rewrites the field if the \<open>name\<close> of the target is not
  empty and contains \<open>phone\<close>. The pair is the name and the value of the target.
\<close>

definition phone_input :: "string \<times> string \<Rightarrow> string \<times> string" where
  "phone_input target =
     (if fst target \<noteq> [] \<and> str_includes (fst target) ''phone''
      then (fst target, phone_mask (snd target)) else target)"

text \<open>
  The source file holds a second listener of the same kind (lines 72 to 111 of
  scripts.js). It lays the digits out in the same way, and then, if more than ten
  digits remain, keeps the first 18 characters of the text of the field instead.
\<close>

definition phone_mask_limited :: "string \<Rightarrow> string" where
  "phone_mask_limited input_value =
     (let value0 = strip_non_digits input_value;
          value = (if 0 < length value0
                   then (if hd value0 = CHR ''7'' \<or> hd value0 = CHR ''8''
                         then substring_from value0 1 else value0)
                   else value0);
          f0 = ''+7 '';
          f1 = (if 0 < length value then f0 @ ''('' @ substring value 0 3 else f0);
          f2 = (if 3 \<le> length value then f1 @ '') '' @ substring value 3 6 else f1);
          f3 = (if 6 \<le> length value then f2 @ ''-'' @ substring value 6 8 else f2);
          f4 = (if 8 \<le> length value then f3 @ ''-'' @ substring value 8 10 else f3);
          f5 = (if 10 < length value then substring input_value 0 18 else f4)
      in f5)"

text \<open>
  Two functions for the proofs about the mask: the digits that it lays out, and the
  layout of a string of digits after the prefix.
\<close>

definition phone_digits :: "string \<Rightarrow> string" where
  "phone_digits s =
     (let v = strip_non_digits s
      in if 0 < length v \<and> (hd v = CHR ''7'' \<or> hd v = CHR ''8'') then substring_from v 1 else v)"

definition phone_layout :: "string \<Rightarrow> string" where
  "phone_layout d =
     (if 0 < length d then ''('' @ take 3 d else [])
     @ (if 3 \<le> length d then '') '' @ take 3 (drop 3 d) else [])
     @ (if 6 \<le> length d then ''-'' @ take 2 (drop 6 d) else [])
     @ (if 8 \<le> length d then ''-'' @ take 2 (drop 8 d) else [])"
section \<open>The alerts (scripts.js)\<close>

text \<open>
  The part of the page that the handler of \<open>DOMContentLoaded\<close> and its timeouts
  touch: the elements of class \<open>alert\<close> that are in the document, in document order;
  the \<open>transition\<close> and \<open>opacity\<close> style of every element; the time in
  milliseconds; and the timeouts that are pending, oldest first, each with the time at
  which it is due. Elements are told apart by a number.

  Time is the time of the timers: a timeout runs when the time reaches its due time,
  the earliest first and the oldest first among equals. That a browser may run a
  timeout later than it is due is outside the model.
\<close>

type_synonym element = nat

datatype callback = Fade "element list" | RemoveMsg element

record alert_page =
  now :: nat
  document_alerts :: "element list"
  style_transition :: "element \<Rightarrow> string"
  style_opacity :: "element \<Rightarrow> string"
  timers :: "(nat \<times> callback) list"

definition setTimeout :: "callback \<Rightarrow> nat \<Rightarrow> alert_page \<Rightarrow> alert_page" where
  "setTimeout f delay s = s\<lparr>timers := timers s @ [(now s + delay, f)]\<rparr>"

text \<open>The body of \<open>messages.forEach\<close> (lines 8 to 10).\<close>

definition fade_msg :: "element \<Rightarrow> alert_page \<Rightarrow> alert_page" where
  "fade_msg msg s =
     setTimeout (RemoveMsg msg) 500
       (s\<lparr>style_transition := (style_transition s)(msg := ''opacity 0.5s ease''),
          style_opacity := (style_opacity s)(msg := ''0'')\<rparr>)"

text \<open>
  The two callbacks: the function given to the outer \<open>setTimeout\<close>, which holds the
  list \<open>messages\<close>, and \<open>() => msg.remove()\<close>.
\<close>

fun run_callback :: "callback \<Rightarrow> alert_page \<Rightarrow> alert_page" where
  "run_callback (Fade messages) s = fold fade_msg messages s"
| "run_callback (RemoveMsg msg) s = s\<lparr>document_alerts := removeAll msg (document_alerts s)\<rparr>"

text \<open>The handler of \<open>DOMContentLoaded\<close> (lines 4 to 13).\<close>

definition alerts_loaded :: "alert_page \<Rightarrow> alert_page" where
  "alerts_loaded s =
     (let messages = document_alerts s
      in if 0 < length messages then setTimeout (Fade messages) 5000 s else s)"

text \<open>The timeout to run next: the earliest due, the oldest among equals.\<close>

fun earliest :: "(nat \<times> callback) list \<Rightarrow> (nat \<times> callback) option" where
  "earliest [] = None"
| "earliest (x # xs) =
     (case earliest xs of
        None \<Rightarrow> Some x
      | Some y \<Rightarrow> if fst y < fst x then Some y else Some x)"

fun weight :: "nat \<times> callback \<Rightarrow> nat" where
  "weight (d, Fade messages) = Suc (length messages)"
| "weight (d, RemoveMsg msg) = 1"

text \<open>
  The page at time \<open>t\<close>: every timeout due by then has run, at its due time.
\<close>

function run_until :: "nat \<Rightarrow> alert_page \<Rightarrow> alert_page" where
  "run_until t s =
     (case earliest (timers s) of
        None \<Rightarrow> s\<lparr>now := max (now s) t\<rparr>
      | Some (due, f) \<Rightarrow>
          if t < due then s\<lparr>now := max (now s) t\<rparr>
          else run_until t
                 (run_callback f (s\<lparr>now := max (now s) due, timers := remove1 (due, f) (timers s)\<rparr>)))"
  by pat_completeness auto

lemma earliest_mem: "earliest ts = Some x \<Longrightarrow> x \<in> set ts"
  by (induction ts arbitrary: x) (auto split: option.splits if_splits)

lemma timers_fold_fade:
  "timers (fold fade_msg ms s) = timers s @ map (\<lambda>m. (now s + 500, RemoveMsg m)) ms"
  "now (fold fade_msg ms s) = now s"
  "document_alerts (fold fade_msg ms s) = document_alerts s"
  by (induction ms arbitrary: s) (simp_all add: fade_msg_def setTimeout_def)

lemma weight_remove1:
  "x \<in> set ts \<Longrightarrow> sum_list (map weight (remove1 x ts)) + weight x = sum_list (map weight ts)"
  by (induction ts) auto

lemma weight_removes: "sum_list (map (weight \<circ> (\<lambda>m. (d, RemoveMsg m))) ms) = length ms"
  by (induction ms) auto

text \<open>
  Every run ends: a callback that runs leaves the queue, and the removals that a fade
  adds weigh less than the fade.
\<close>

termination run_until
proof (relation "measure (\<lambda>(t, s). sum_list (map weight (timers s)))")
  show "wf (measure (\<lambda>(t, s). sum_list (map weight (timers s))))" by simp
next
  fix t :: nat and s :: alert_page and x :: "nat \<times> callback" and due f
  assume e: "earliest (timers s) = Some x" and x: "(due, f) = x" and "\<not> t < due"
  from e x have m: "(due, f) \<in> set (timers s)" by (auto dest: earliest_mem)
  have "sum_list (map weight (timers (run_callback f
          (s\<lparr>now := max (now s) due, timers := remove1 (due, f) (timers s)\<rparr>))))
        < sum_list (map weight (timers s))"
    using weight_remove1 [OF m]
    by (cases f) (simp_all add: timers_fold_fade weight_removes)
  then show "((t, run_callback f (s\<lparr>now := max (now s) due, timers := remove1 (due, f) (timers s)\<rparr>)), t, s)
       \<in> measure (\<lambda>(t, s). sum_list (map weight (timers s)))"
    by simp
qed

declare run_until.simps [simp del]

section \<open>Example pages\<close>

text \<open>
  A stake form and a calculator page with given texts in their fields and nothing
  computed yet; the examples below are instances of them.
\<close>

definition main_page_with :: "string \<Rightarrow> string \<Rightarrow> string \<Rightarrow> string \<Rightarrow> main_page" where
  "main_page_with b o' p k =
     \<lparr>bankInput = b, oddsInput = o', probInput = p, kellySelect = k,
      stakeInput = [], stakeDisplay = [], userModified = False\<rparr>"

definition calc_page_with :: "string \<Rightarrow> string \<Rightarrow> string \<Rightarrow> string \<Rightarrow> calc_page" where
  "calc_page_with b o' p k =
     \<lparr>calc_odds = o', calc_probability = p, calc_bank = b, calc_kelly_fraction = k,
      errorMessage = None, errorBlock_display = ''none'', resultBlock_display = ''none'',
      resultProb = [], resultOdds = [], resultBank = Num 0, resultKelly = Num 0,
      roiIndicator = None, recommendedStake = Num 0, stakePercent = [],
      progressPercent = [], progressFill_width = Num 0\<rparr>"

text \<open>
  A stake form with a bank of 5000, odds 2, 60% and the full multiplier, in which the
  user has then typed the stake 1 234.
\<close>

definition typed_page :: main_page where
  "typed_page =
     main_step (EditStake ''1 234'') (main_page_with ''5000'' ''2'' ''60'' ''1'')"

text \<open>
  A page at time 0 with two alerts, of full opacity and no transition, and no timeout
  pending.
\<close>

definition two_alerts :: alert_page where
  "two_alerts =
     \<lparr>now = 0, document_alerts = [1, 2], style_transition = (\<lambda>_. []),
      style_opacity = (\<lambda>_. ''1''), timers = []\<rparr>"

section \<open>Properties\<close>

subsection \<open>Arithmetic on finite numbers\<close>

lemma Math_min_Num [simp]: "Math_min (Num a) (Num b) = Num (min a b)"
  by (simp add: Math_min_def min_def)

lemma Math_max_Num [simp]: "Math_max (Num a) (Num b) = Num (max a b)"
  by (simp add: Math_max_def max_def)

lemma js_sub_Num [simp]: "js_sub (Num a) (Num b) = Num (a - b)"
  by (simp add: js_sub_def)

lemma js_cmp_Num [simp]:
  "js_gt (Num a) (Num b) = (b < a)"
  "js_le (Num a) (Num b) = (a \<le> b)"
  "js_ge (Num a) (Num b) = (b \<le> a)"
  by (auto simp: js_gt_def js_le_def js_ge_def)

lemma js_mul_NaN_right [simp]: "js_mul x NaN = NaN"
  by (cases x) simp_all


lemma js_ge_truthy:
  "js_ge x (Num c) \<Longrightarrow> 0 < c \<Longrightarrow> truthy x \<and> \<not> js_lt x (Num c)"
  by (cases x) (auto simp: js_ge_def js_le_def)

lemma falsy_or_lt:
  "0 < c \<Longrightarrow> (\<not> truthy x \<or> js_lt x (Num c)) = (\<not> js_ge x (Num c))"
  "0 < c \<Longrightarrow> (truthy x \<longrightarrow> js_lt x (Num c)) = (\<not> js_ge x (Num c))"
  by (cases x; auto simp: js_ge_def js_le_def)+

lemma falsy_or_le_0:
  "(\<not> truthy x \<or> js_le x (Num 0)) = (\<not> js_gt x (Num 0))"
  "(truthy x \<longrightarrow> js_le x (Num 0)) = (\<not> js_gt x (Num 0))"
  by (cases x; auto simp: js_gt_def js_le_def)+

lemma js_lt_ge: "js_gt x (Num 0) \<Longrightarrow> js_lt x (Num c) = (\<not> js_ge x (Num c))"
  by (cases x) (auto simp: js_gt_def js_ge_def js_le_def)

lemma js_ge_cases:
  assumes "js_ge x (Num c)"
  obtains r where "x = Num r" "c \<le> r" | "x = PosInf"
  using assms by (cases x) (auto simp: js_ge_def js_le_def)

subsection \<open>Reading concrete texts\<close>

lemmas parse_eval = parseFloat_def unsigned_literal_def is_ws_def is_digit_def digits_val_def
  digit_val_def exponent_part_def scale10_def

lemma parse_examples:
  "parseFloat ''1000'' = Num 1000" "parseFloat ''2'' = Num 2" "parseFloat ''0'' = Num 0"
  "parseFloat ''1'' = Num 1" "parseFloat ''60'' = Num 60" "parseFloat ''2,5'' = Num 2"
  "parseFloat ''2.5'' = Num (5 / 2)" "parseFloat ''50'' = Num 50"
  by (simp_all add: parse_eval)

subsection \<open>The two computations of the stake\<close>

lemma stake_kelly_Num:
  assumes "odds \<noteq> 1"
  shows "stake_kelly (Num bank) (Num odds) (Num prob) (Num fraction)
         = Num (bank * max 0 (min ((prob / 100 * odds - 1) / (odds - 1)) 1) * fraction)"
  using assms by (simp add: stake_kelly_def)

lemma calc_kelly_Num:
  assumes "odds \<noteq> 1"
  shows "calc_kelly (Num odds) (Num prob) (Num bank) (Num fraction)
         = (Num (max 0 (min ((prob / 100 * odds - 1) / (odds - 1)) 1) * fraction),
            Num (bank * max 0 (min ((prob / 100 * odds - 1) / (odds - 1)) 1) * fraction))"
  using assms by (simp add: calc_kelly_def mult.assoc)



lemma stake_valid_Num:
  "stake_valid (Num bank) (Num odds) (Num prob) = (1 < odds \<and> 0 < prob \<and> prob \<le> 100 \<and> 0 < bank)"
  by (simp add: stake_valid_def)

lemma stake_valid_odds: "stake_valid bank (Num odds) prob \<Longrightarrow> odds \<noteq> 1"
  by (auto simp: stake_valid_def js_gt_def)

subsection \<open>The checks of calculate\<close>

lemma default_positive:
  assumes "101 / 100 \<le> (x::real)"
  shows "0 < min (105 / x) (999 / 10)" "min (105 / x) (999 / 10) < 100"
  using assms by (auto simp: min_def)

lemma default_probability_Num:
  "parseFloat (calc_odds s) = Num x \<Longrightarrow> 101 / 100 \<le> x \<Longrightarrow>
   calculateDefaultProbability s = Some (Num (min (105 / x) (999 / 10)))"
  by (simp add: calculateDefaultProbability_def DEFAULT_ROI_def js_ge_def js_le_def)

lemma default_probability_PosInf:
  "parseFloat (calc_odds s) = PosInf \<Longrightarrow> calculateDefaultProbability s = Some (Num 0)"
  by (simp add: calculateDefaultProbability_def DEFAULT_ROI_def)

lemma default_probability_None:
  "\<not> js_ge (parseFloat (calc_odds s)) (Num (101 / 100)) \<Longrightarrow> calculateDefaultProbability s = None"
  by (simp add: calculateDefaultProbability_def falsy_or_lt Let_def)

lemma calculate_inputs_odds:
  assumes "\<not> js_ge (parseFloat (calc_odds s)) (Num (101 / 100))"
  shows "calculate_inputs s = Inl (OddsMessage, s)"
  using assms by (simp add: calculate_inputs_def falsy_or_lt Let_def)

lemma calculate_inputs_entered:
  assumes "js_ge (parseFloat (calc_odds s)) (Num (101 / 100))"
    and "js_gt (parseFloat (calc_probability s)) (Num 0)"
  shows "calculate_inputs s =
     (if js_ge (parseFloat (calc_probability s)) (Num 100) then Inl (ProbabilityMessage, s)
      else if \<not> js_ge (parseFloat (calc_bank s)) (Num 100) then Inl (BankMessage, s)
      else Inr ((parseFloat (calc_odds s), parseFloat (calc_probability s),
                 parseFloat (calc_bank s), parseFloat (calc_kelly_fraction s)), s))"
  using assms
  by (cases "parseFloat (calc_odds s)"; cases "parseFloat (calc_probability s)";
      cases "parseFloat (calc_bank s)")
     (simp_all add: calculate_inputs_def Let_def js_ge_def js_le_def js_gt_def)

lemma calculate_inputs_default_gen:
  assumes "parseFloat (calc_odds s) = Num x" and "101 / 100 \<le> x"
    and "\<not> js_gt (parseFloat (calc_probability s)) (Num 0)"
    and "calculateDefaultProbability s = Some (Num d)" and "0 < d" and "d < 100"
  shows "calculate_inputs s =
     (if \<not> js_ge (parseFloat (calc_bank s)) (Num 100)
      then Inl (BankMessage, s\<lparr>calc_probability := toFixed 1 (Num d)\<rparr>)
      else Inr ((Num x, Num d, parseFloat (calc_bank s), parseFloat (calc_kelly_fraction s)),
                s\<lparr>calc_probability := toFixed 1 (Num d)\<rparr>))"
  unfolding calculate_inputs_def Let_def assms(4)
  using assms(2,3,5,6)
  by (cases "parseFloat (calc_probability s)"; cases "parseFloat (calc_bank s)")
     (simp_all add: assms(1) js_ge_def js_le_def js_gt_def)

lemma calculate_inputs_default:
  assumes "parseFloat (calc_odds s) = Num x" and "101 / 100 \<le> x"
    and "\<not> js_gt (parseFloat (calc_probability s)) (Num 0)"
  shows "calculate_inputs s =
     (if \<not> js_ge (parseFloat (calc_bank s)) (Num 100)
      then Inl (BankMessage, s\<lparr>calc_probability := toFixed 1 (Num (min (105 / x) (999 / 10)))\<rparr>)
      else Inr ((Num x, Num (min (105 / x) (999 / 10)), parseFloat (calc_bank s),
                 parseFloat (calc_kelly_fraction s)),
                s\<lparr>calc_probability := toFixed 1 (Num (min (105 / x) (999 / 10)))\<rparr>))"
  by (rule calculate_inputs_default_gen [OF assms default_probability_Num [OF assms(1,2)]
        default_positive [OF assms(2)]])

lemma calculate_inputs_no_default:
  assumes "parseFloat (calc_odds s) = PosInf"
    and "\<not> js_gt (parseFloat (calc_probability s)) (Num 0)"
  shows "calculate_inputs s = Inl (NoProbabilityMessage, s)"
  using assms
  by (simp add: calculate_inputs_def falsy_or_le_0 default_probability_PosInf Let_def)

lemma calculate_inputs_all:
  "calculate_inputs s =
     (if \<not> js_ge (parseFloat (calc_odds s)) (Num (101 / 100)) then Inl (OddsMessage, s)
      else if js_gt (parseFloat (calc_probability s)) (Num 0) then
        (if js_ge (parseFloat (calc_probability s)) (Num 100) then Inl (ProbabilityMessage, s)
         else if \<not> js_ge (parseFloat (calc_bank s)) (Num 100) then Inl (BankMessage, s)
         else Inr ((parseFloat (calc_odds s), parseFloat (calc_probability s),
                    parseFloat (calc_bank s), parseFloat (calc_kelly_fraction s)), s))
      else
        (case parseFloat (calc_odds s) of
           Num x \<Rightarrow>
             if \<not> js_ge (parseFloat (calc_bank s)) (Num 100)
             then Inl (BankMessage, s\<lparr>calc_probability := toFixed 1 (Num (min (105 / x) (999 / 10)))\<rparr>)
             else Inr ((Num x, Num (min (105 / x) (999 / 10)), parseFloat (calc_bank s),
                        parseFloat (calc_kelly_fraction s)),
                       s\<lparr>calc_probability := toFixed 1 (Num (min (105 / x) (999 / 10)))\<rparr>)
         | _ \<Rightarrow> Inl (NoProbabilityMessage, s)))"
proof (cases "js_ge (parseFloat (calc_odds s)) (Num (101 / 100))")
  case False
  then show ?thesis by (simp add: calculate_inputs_odds)
next
  case ge: True
  show ?thesis
  proof (cases "js_gt (parseFloat (calc_probability s)) (Num 0)")
    case True
    with ge show ?thesis by (simp add: calculate_inputs_entered)
  next
    case False
    from ge show ?thesis
    proof (cases rule: js_ge_cases)
      case (1 r)
      with ge False show ?thesis by (simp add: calculate_inputs_default)
    next
      case 2
      with ge False show ?thesis by (simp add: calculate_inputs_no_default)
    qed
  qed
qed

lemma calculate_inputs_valid:
  assumes "calculate_inputs s = Inr ((odds, prob, bank, fraction), s1)"
  shows "js_ge odds (Num (101 / 100))" "js_gt prob (Num 0)" "js_lt prob (Num 100)"
    "js_ge bank (Num 100)"
    "odds = parseFloat (calc_odds s)" "bank = parseFloat (calc_bank s)"
    "fraction = parseFloat (calc_kelly_fraction s)"
    "js_gt (parseFloat (calc_probability s)) (Num 0)
       \<Longrightarrow> prob = parseFloat (calc_probability s) \<and> s1 = s"
    "\<not> js_gt (parseFloat (calc_probability s)) (Num 0)
       \<Longrightarrow> calculateDefaultProbability s = Some prob \<and> s1 = s\<lparr>calc_probability := toFixed 1 prob\<rparr>"
proof -
  have ge: "js_ge (parseFloat (calc_odds s)) (Num (101 / 100))"
    using assms calculate_inputs_odds [of s] by auto
  have all: "js_ge odds (Num (101 / 100)) \<and> js_gt prob (Num 0) \<and> js_lt prob (Num 100)
    \<and> js_ge bank (Num 100) \<and> odds = parseFloat (calc_odds s) \<and> bank = parseFloat (calc_bank s)
    \<and> fraction = parseFloat (calc_kelly_fraction s)
    \<and> (js_gt (parseFloat (calc_probability s)) (Num 0)
         \<longrightarrow> prob = parseFloat (calc_probability s) \<and> s1 = s)
    \<and> (\<not> js_gt (parseFloat (calc_probability s)) (Num 0)
         \<longrightarrow> calculateDefaultProbability s = Some prob
             \<and> s1 = s\<lparr>calc_probability := toFixed 1 prob\<rparr>)"
  proof (cases "js_gt (parseFloat (calc_probability s)) (Num 0)")
    case True
    from assms show ?thesis
      unfolding calculate_inputs_entered [OF ge True]
      using ge True by (auto simp: js_lt_ge split: if_splits)
  next
    case False
    from ge show ?thesis
    proof (cases rule: js_ge_cases)
      case (1 r)
      note d = default_positive [OF 1(2)]
      from assms [unfolded calculate_inputs_default [OF 1 False]]
      have bk: "js_ge (parseFloat (calc_bank s)) (Num 100)"
        and eqs: "odds = Num r" "prob = Num (min (105 / r) (999 / 10))"
          "bank = parseFloat (calc_bank s)" "fraction = parseFloat (calc_kelly_fraction s)"
          "s1 = s\<lparr>calc_probability := toFixed 1 (Num (min (105 / r) (999 / 10)))\<rparr>"
        by (auto split: if_splits)
      have "js_gt prob (Num 0)" "js_lt prob (Num 100)"
        using d by (simp_all only: eqs js_cmp_Num js_lt.simps)
      moreover have "js_ge odds (Num (101 / 100))" "odds = parseFloat (calc_odds s)"
        using ge 1(1) by (simp_all only: eqs)
      moreover have "calculateDefaultProbability s = Some prob"
        by (simp only: eqs default_probability_Num [OF 1])
      ultimately show ?thesis
        using False bk eqs(3,4,5) by (simp only: eqs(2)) simp
    next
      case 2
      with assms False show ?thesis
        by (simp add: calculate_inputs_no_default)
    qed
  qed
  from all show "js_ge odds (Num (101 / 100))" "js_gt prob (Num 0)" "js_lt prob (Num 100)"
    "js_ge bank (Num 100)"
    "odds = parseFloat (calc_odds s)" "bank = parseFloat (calc_bank s)"
    "fraction = parseFloat (calc_kelly_fraction s)"
    "js_gt (parseFloat (calc_probability s)) (Num 0)
       \<Longrightarrow> prob = parseFloat (calc_probability s) \<and> s1 = s"
    "\<not> js_gt (parseFloat (calc_probability s)) (Num 0)
       \<Longrightarrow> calculateDefaultProbability s = Some prob \<and> s1 = s\<lparr>calc_probability := toFixed 1 prob\<rparr>"
    by blast+
qed

subsection \<open>What calculateStake writes\<close>

lemma calculateStake_inputs [simp]:
  "bankInput (calculateStake s) = bankInput s"
  "oddsInput (calculateStake s) = oddsInput s"
  "probInput (calculateStake s) = probInput s"
  "kellySelect (calculateStake s) = kellySelect s"
  "userModified (calculateStake s) = userModified s"
  by (simp_all add: calculateStake_def Let_def)

lemma calculateStake_modified: "userModified s \<Longrightarrow> calculateStake s = s"
  by (simp add: calculateStake_def Let_def)

lemma calculateStake_modified_funpow: "userModified s \<Longrightarrow> (calculateStake ^^ n) s = s"
  by (induction n) (simp_all add: calculateStake_modified)

text \<open>The stake that \<open>calculateStake\<close> fills in when the flag is clear.\<close>

lemma calculateStake_fills:
  assumes "\<not> userModified s"
  shows "stakeInput (calculateStake s)
         = (if stake_valid (stake_bank s) (stake_odds s) (stake_prob s)
            then js_toString (roundToHundreds
                   (stake_kelly (stake_bank s) (stake_odds s) (stake_prob s) (stake_fraction s)))
            else ''0'')"
    and "stakeDisplay (calculateStake s)
         = (if stake_valid (stake_bank s) (stake_odds s) (stake_prob s)
            then formatNumberWithSpaces (roundToHundreds
                   (stake_kelly (stake_bank s) (stake_odds s) (stake_prob s) (stake_fraction s)))
            else ''0'')"
  using assms by (simp_all add: calculateStake_def Let_def)

lemma stake_reads_flag [simp]:
  "stake_bank (s\<lparr>userModified := b\<rparr>) = stake_bank s"
  "stake_odds (s\<lparr>userModified := b\<rparr>) = stake_odds s"
  "stake_prob (s\<lparr>userModified := b\<rparr>) = stake_prob s"
  "stake_fraction (s\<lparr>userModified := b\<rparr>) = stake_fraction s"
  by (simp_all add: stake_bank_def stake_odds_def stake_prob_def stake_fraction_def)

lemma recalcWithFlag_fills:
  "\<not> userModified (recalcWithFlag s)"
  "stakeInput (recalcWithFlag s)
     = (if stake_valid (stake_bank s) (stake_odds s) (stake_prob s)
        then js_toString (roundToHundreds
               (stake_kelly (stake_bank s) (stake_odds s) (stake_prob s) (stake_fraction s)))
        else ''0'')"
  "stakeDisplay (recalcWithFlag s)
     = (if stake_valid (stake_bank s) (stake_odds s) (stake_prob s)
        then formatNumberWithSpaces (roundToHundreds
               (stake_kelly (stake_bank s) (stake_odds s) (stake_prob s) (stake_fraction s)))
        else ''0'')"
  by (simp_all add: recalcWithFlag_def calculateStake_fills)

subsection \<open>Rounding and acceptance\<close>

lemma roundToHundreds_Num:
  "roundToHundreds (Num x) = Num (of_int (100 * \<lfloor>x / 100 + 1 / 2\<rfloor>))"
  by (simp add: roundToHundreds_def)

lemma floor_int_half: "\<lfloor>of_int n + (1 / 2 :: real)\<rfloor> = n"
  by linarith

text \<open>\<open>Math.round\<close> changes nothing in a stake that is rounded to hundreds.\<close>

lemma Math_round_hundreds:
  "Math_round (js_mul (Math_round z) (Num 100)) = js_mul (Math_round z) (Num 100)"
proof (cases z)
  case (Num a)
  have "\<lfloor>of_int \<lfloor>a + 1 / 2\<rfloor> * (100 :: real) + 1 / 2\<rfloor> = \<lfloor>a + 1 / 2\<rfloor> * 100"
    using floor_int_half [of "\<lfloor>a + 1 / 2\<rfloor> * 100"] by simp
  with Num show ?thesis by simp
qed (simp_all add: inf_of_sign_def)

lemma calculate_shows:
  assumes "calculate_inputs s = Inr ((odds, prob, bank, fraction), s1)"
  shows "fst (calculate s)"
    and "recommendedStake (snd (calculate s))
         = js_mul (Math_round (js_div (snd (calc_kelly odds prob bank fraction)) (Num 100))) (Num 100)"
  using assms by (simp_all add: calculate_def Let_def formatNumber_def Math_round_hundreds)



subsection \<open>Two example pages\<close>

text \<open>
  A stake form with a bank of 1000, odds 2.5, 60% and the full multiplier, and a
  calculator page with a bank of 1000, odds 2, 60% and the full multiplier.
\<close>

lemma main_example_reads:
  "stake_bank (main_page_with ''1000'' ''2.5'' ''60'' ''1'') = Num 1000"
  "stake_odds (main_page_with ''1000'' ''2.5'' ''60'' ''1'') = Num (5 / 2)"
  "stake_prob (main_page_with ''1000'' ''2.5'' ''60'' ''1'') = Num 60"
  "stake_fraction (main_page_with ''1000'' ''2.5'' ''60'' ''1'') = Num 1"
  by (simp_all add: stake_bank_def stake_odds_def stake_prob_def stake_fraction_def
      main_page_with_def getFloatValue_def strip_ws_def is_ws_def or_zero_def parse_examples)

lemma calc_example_inputs:
  "calculate_inputs (calc_page_with ''1000'' ''2'' ''60'' ''1'')
   = Inr ((Num 2, Num 60, Num 1000, Num 1), calc_page_with ''1000'' ''2'' ''60'' ''1'')"
  by (simp add: calculate_inputs_all calc_page_with_def parse_examples)


lemma show_400: "show_int 400 = ''400''"
  by (simp add: show_int_def show_nat.simps digit_char_def)

subsection \<open>The stake before rounding\<close>

text \<open>
  Claim C1, as amended. For finite numbers that the calculator accepts, the stake before
  rounding is \<open>bankroll * max 0 (min ((p * odds - 1) / (odds - 1)) 1) * fraction\<close>, where
  \<open>p\<close> is a hundredth of the probability used. \<open>calculateStake\<close> uses the probability
  entered. \<open>calculate\<close> uses the probability entered if it is a positive number, and
  otherwise the default probability of \<open>calculateDefaultProbability\<close>, which it
  puts in place of a missing, zero or negative entry.
\<close>

theorem kelly_stake_formula:
  "(stake_bank m = Num bank \<and> stake_odds m = Num odds \<and> stake_prob m = Num prob
      \<and> stake_fraction m = Num fraction
      \<and> stake_valid (stake_bank m) (stake_odds m) (stake_prob m) \<longrightarrow>
    stake_kelly (stake_bank m) (stake_odds m) (stake_prob m) (stake_fraction m)
      = Num (bank * max 0 (min ((prob / 100 * odds - 1) / (odds - 1)) 1) * fraction))
   \<and> (calculate_inputs s = Inr ((Num codds, Num cprob, Num cbank, Num cfraction), s1) \<longrightarrow>
        snd (calc_kelly (Num codds) (Num cprob) (Num cbank) (Num cfraction))
          = Num (cbank * max 0 (min ((cprob / 100 * codds - 1) / (codds - 1)) 1) * cfraction)
        \<and> (js_gt (parseFloat (calc_probability s)) (Num 0) \<longrightarrow>
             parseFloat (calc_probability s) = Num cprob)
        \<and> (\<not> js_gt (parseFloat (calc_probability s)) (Num 0) \<longrightarrow>
             calculateDefaultProbability s = Some (Num cprob)))"
proof (intro conjI impI)
  assume a: "stake_bank m = Num bank \<and> stake_odds m = Num odds \<and> stake_prob m = Num prob
      \<and> stake_fraction m = Num fraction
      \<and> stake_valid (stake_bank m) (stake_odds m) (stake_prob m)"
  then have "odds \<noteq> 1" by (auto dest: stake_valid_odds)
  with a show "stake_kelly (stake_bank m) (stake_odds m) (stake_prob m) (stake_fraction m)
      = Num (bank * max 0 (min ((prob / 100 * odds - 1) / (odds - 1)) 1) * fraction)"
    by (simp add: stake_kelly_Num)
next
  assume a: "calculate_inputs s = Inr ((Num codds, Num cprob, Num cbank, Num cfraction), s1)"
  from calculate_inputs_valid(1) [OF a] have "codds \<noteq> 1" by simp
  then show "snd (calc_kelly (Num codds) (Num cprob) (Num cbank) (Num cfraction))
          = Num (cbank * max 0 (min ((cprob / 100 * codds - 1) / (codds - 1)) 1) * cfraction)"
    by (simp add: calc_kelly_Num)
  {
    assume "js_gt (parseFloat (calc_probability s)) (Num 0)"
    with calculate_inputs_valid(8) [OF a]
    show "parseFloat (calc_probability s) = Num cprob" by simp
  }
  {
    assume "\<not> js_gt (parseFloat (calc_probability s)) (Num 0)"
    with calculate_inputs_valid(9) [OF a]
    show "calculateDefaultProbability s = Some (Num cprob)" by simp
  }
qed

text \<open>
  The formula at work: a bank of 1000 at odds 2.5 and 60% with the full multiplier in
  the stake form, and a bank of 1000 at odds 2 and 60% in the calculator.
\<close>

theorem kelly_stake_formula_witness:
  "stake_valid (stake_bank (main_page_with ''1000'' ''2.5'' ''60'' ''1''))
     (stake_odds (main_page_with ''1000'' ''2.5'' ''60'' ''1''))
     (stake_prob (main_page_with ''1000'' ''2.5'' ''60'' ''1''))
   \<and> stake_kelly (stake_bank (main_page_with ''1000'' ''2.5'' ''60'' ''1''))
       (stake_odds (main_page_with ''1000'' ''2.5'' ''60'' ''1''))
       (stake_prob (main_page_with ''1000'' ''2.5'' ''60'' ''1''))
       (stake_fraction (main_page_with ''1000'' ''2.5'' ''60'' ''1'')) = Num (1000 / 3)
   \<and> snd (calc_kelly (Num 2) (Num 60) (Num 1000) (Num 1)) = Num 200
   \<and> js_gt (parseFloat (calc_probability (calc_page_with ''1000'' ''2'' ''60'' ''1''))) (Num 0)
   \<and> parseFloat (calc_probability (calc_page_with ''1000'' ''2'' ''60'' ''1'')) = Num 60"
proof -
  have v: "stake_valid (stake_bank (main_page_with ''1000'' ''2.5'' ''60'' ''1''))
     (stake_odds (main_page_with ''1000'' ''2.5'' ''60'' ''1''))
     (stake_prob (main_page_with ''1000'' ''2.5'' ''60'' ''1''))"
    by (simp add: main_example_reads stake_valid_Num)
  have p: "js_gt (parseFloat (calc_probability (calc_page_with ''1000'' ''2'' ''60'' ''1''))) (Num 0)"
    by (simp add: calc_page_with_def parse_examples)
  note t = kelly_stake_formula [of "main_page_with ''1000'' ''2.5'' ''60'' ''1''" 1000 "5 / 2" 60 1
      "calc_page_with ''1000'' ''2'' ''60'' ''1''" 2 60 1000 1
      "calc_page_with ''1000'' ''2'' ''60'' ''1''"]
  from t v main_example_reads
  have 1: "stake_kelly (stake_bank (main_page_with ''1000'' ''2.5'' ''60'' ''1''))
       (stake_odds (main_page_with ''1000'' ''2.5'' ''60'' ''1''))
       (stake_prob (main_page_with ''1000'' ''2.5'' ''60'' ''1''))
       (stake_fraction (main_page_with ''1000'' ''2.5'' ''60'' ''1'')) = Num (1000 / 3)"
    by simp
  from t calc_example_inputs p
  have 2: "snd (calc_kelly (Num 2) (Num 60) (Num 1000) (Num 1)) = Num 200"
    and 3: "parseFloat (calc_probability (calc_page_with ''1000'' ''2'' ''60'' ''1'')) = Num 60"
    by simp_all
  from v 1 2 p 3 show ?thesis by simp
qed

text \<open>
  The claim as stated fails in the calculator for an entry of 0%: with a bank of 1000 at
  odds 2 and the full multiplier, \<open>calculate\<close> accepts, takes the default 52.5% and
  computes a stake of 50, shown as 100, where the formula at the probability entered
  gives 0.
\<close>

theorem kelly_stake_formula_counterexample:
  "fst (calculate (calc_page_with ''1000'' ''2'' ''0'' ''1''))
   \<and> parseFloat (calc_probability (calc_page_with ''1000'' ''2'' ''0'' ''1'')) = Num 0
   \<and> map_sum fst fst (calculate_inputs (calc_page_with ''1000'' ''2'' ''0'' ''1''))
       = Inr (Num 2, Num (105 / 2), Num 1000, Num 1)
   \<and> snd (calc_kelly (Num 2) (Num (105 / 2)) (Num 1000) (Num 1)) = Num 50
   \<and> Num 50 \<noteq> Num (1000 * max 0 (min ((0 / 100 * 2 - 1) / (2 - 1)) 1) * 1)
   \<and> recommendedStake (snd (calculate (calc_page_with ''1000'' ''2'' ''0'' ''1''))) = Num 100"
  by (simp add: calculate_def calculate_inputs_all calc_page_with_def parse_examples Let_def
      calc_kelly_def hideError_def formatNumber_def)

subsection \<open>The two implementations on the same numbers\<close>




subsection \<open>What calculate accepts\<close>

text \<open>
  Claim C3, as amended. \<open>calculate\<close> accepts its inputs and goes on to compute and
  show a stake exactly when the odds read are at least 1.01, the bank read is at least
  100, and the probability read is either strictly between 0 and 100 or is missing, not
  a number, zero or negative while the odds are finite: it then fills in the default
  probability and uses it. For every other input it shows an error message, hides the
  result block and returns false, and the contents of the result block stay as they
  were.
\<close>

theorem calculate_accepts_iff:
  "(fst (calculate s) \<longleftrightarrow>
      js_ge (parseFloat (calc_odds s)) (Num (101 / 100))
      \<and> js_ge (parseFloat (calc_bank s)) (Num 100)
      \<and> (if js_gt (parseFloat (calc_probability s)) (Num 0)
          then js_lt (parseFloat (calc_probability s)) (Num 100)
          else parseFloat (calc_odds s) \<noteq> PosInf))
   \<and> (fst (calculate s) \<longrightarrow>
        errorBlock_display (snd (calculate s)) = ''none''
        \<and> resultBlock_display (snd (calculate s)) = ''block'')
   \<and> (\<not> fst (calculate s) \<longrightarrow>
        errorMessage (snd (calculate s)) \<noteq> None
        \<and> errorBlock_display (snd (calculate s)) = ''flex''
        \<and> resultBlock_display (snd (calculate s)) = ''none''
        \<and> recommendedStake (snd (calculate s)) = recommendedStake s
        \<and> stakePercent (snd (calculate s)) = stakePercent s
        \<and> resultProb (snd (calculate s)) = resultProb s
        \<and> resultOdds (snd (calculate s)) = resultOdds s
        \<and> resultBank (snd (calculate s)) = resultBank s
        \<and> resultKelly (snd (calculate s)) = resultKelly s
        \<and> roiIndicator (snd (calculate s)) = roiIndicator s
        \<and> progressPercent (snd (calculate s)) = progressPercent s
        \<and> progressFill_width (snd (calculate s)) = progressFill_width s)"
proof (cases "js_ge (parseFloat (calc_odds s)) (Num (101 / 100))")
  case False
  then show ?thesis
    by (simp add: calculate_def calculate_inputs_all showError_def)
next
  case ge: True
  show ?thesis
  proof (cases "js_gt (parseFloat (calc_probability s)) (Num 0)")
    case True
    with ge show ?thesis
      by (simp add: calculate_def calculate_inputs_all showError_def hideError_def Let_def js_lt_ge)
  next
    case False
    from ge show ?thesis
    proof (cases rule: js_ge_cases)
      case (1 r)
      with False show ?thesis
        by (simp add: calculate_def calculate_inputs_all showError_def hideError_def Let_def)
    next
      case 2
      with False show ?thesis
        by (simp add: calculate_def calculate_inputs_all showError_def)
    qed
  qed
qed

text \<open>
  An accepted page (bank 1000, odds 2, 60%) and a rejected one (bank 99, odds 1.9, 55%).
\<close>

theorem calculate_accepts_iff_witness:
  "fst (calculate (calc_page_with ''1000'' ''2'' ''60'' ''1''))
   \<and> js_lt (parseFloat (calc_probability (calc_page_with ''1000'' ''2'' ''60'' ''1''))) (Num 100)
   \<and> resultBlock_display (snd (calculate (calc_page_with ''1000'' ''2'' ''60'' ''1''))) = ''block''
   \<and> \<not> js_ge (parseFloat (calc_bank (calc_page_with ''99'' ''1.9'' ''55'' ''1''))) (Num 100)
   \<and> \<not> fst (calculate (calc_page_with ''99'' ''1.9'' ''55'' ''1''))
   \<and> errorBlock_display (snd (calculate (calc_page_with ''99'' ''1.9'' ''55'' ''1''))) = ''flex''
   \<and> resultBlock_display (snd (calculate (calc_page_with ''99'' ''1.9'' ''55'' ''1''))) = ''none''
   \<and> recommendedStake (snd (calculate (calc_page_with ''99'' ''1.9'' ''55'' ''1''))) = Num 0"
proof -
  have a: "js_ge (parseFloat (calc_odds (calc_page_with ''1000'' ''2'' ''60'' ''1''))) (Num (101 / 100))"
    "js_ge (parseFloat (calc_bank (calc_page_with ''1000'' ''2'' ''60'' ''1''))) (Num 100)"
    "js_gt (parseFloat (calc_probability (calc_page_with ''1000'' ''2'' ''60'' ''1''))) (Num 0)"
    "js_lt (parseFloat (calc_probability (calc_page_with ''1000'' ''2'' ''60'' ''1''))) (Num 100)"
    by (simp_all add: calc_page_with_def parse_examples)
  have b: "\<not> js_ge (parseFloat (calc_bank (calc_page_with ''99'' ''1.9'' ''55'' ''1''))) (Num 100)"
    by (simp add: calc_page_with_def parse_eval)
  have r: "recommendedStake (calc_page_with ''99'' ''1.9'' ''55'' ''1'') = Num 0"
    by (simp add: calc_page_with_def)
  note t1 = calculate_accepts_iff [of "calc_page_with ''1000'' ''2'' ''60'' ''1''"]
  note t2 = calculate_accepts_iff [of "calc_page_with ''99'' ''1.9'' ''55'' ''1''"]
  from t1 a have 1: "fst (calculate (calc_page_with ''1000'' ''2'' ''60'' ''1''))"
    by (simp only: if_True simp_thms)
  from t1 1
  have 2: "resultBlock_display (snd (calculate (calc_page_with ''1000'' ''2'' ''60'' ''1''))) = ''block''"
    by blast
  from t2 b have 3: "\<not> fst (calculate (calc_page_with ''99'' ''1.9'' ''55'' ''1''))"
    by (simp only: simp_thms)
  from t2 3 r
  have 4: "errorBlock_display (snd (calculate (calc_page_with ''99'' ''1.9'' ''55'' ''1''))) = ''flex''"
    "resultBlock_display (snd (calculate (calc_page_with ''99'' ''1.9'' ''55'' ''1''))) = ''none''"
    "recommendedStake (snd (calculate (calc_page_with ''99'' ''1.9'' ''55'' ''1''))) = Num 0"
    by simp_all
  from 1 a(4) 2 b 3 4 show ?thesis by blast
qed

text \<open>
  The claim as stated fails: \<open>calculate\<close> accepts a page whose probability is 0, which
  is not strictly between 0 and 100, and a page whose odds are 1.01, which are not
  greater than 1.01.
\<close>

theorem calculate_accepts_counterexample:
  "fst (calculate (calc_page_with ''1000'' ''2'' ''0'' ''1''))
   \<and> \<not> js_gt (parseFloat (calc_probability (calc_page_with ''1000'' ''2'' ''0'' ''1''))) (Num 0)
   \<and> resultBlock_display (snd (calculate (calc_page_with ''1000'' ''2'' ''0'' ''1''))) = ''block''
   \<and> fst (calculate (calc_page_with ''1000'' ''1.01'' ''60'' ''1''))
   \<and> \<not> js_gt (parseFloat (calc_odds (calc_page_with ''1000'' ''1.01'' ''60'' ''1''))) (Num (101 / 100))"
proof -
  have p: "parseFloat ''1.01'' = Num (101 / 100)"
    by (simp add: parse_eval)
  show ?thesis
    by (simp add: calculate_def calculate_inputs_all calc_page_with_def parse_examples p Let_def
        hideError_def)
qed

subsection \<open>Rounding to hundreds\<close>

lemma nearest_hundred:
  fixes x :: real
  shows "\<bar>of_int (100 * \<lfloor>x / 100 + 1 / 2\<rfloor>) - x\<bar> \<le> 50"
    and "\<bar>of_int (100 * \<lfloor>x / 100 + 1 / 2\<rfloor>) - x\<bar> \<le> \<bar>of_int (100 * k) - x\<bar>"
proof -
  define n where "n = \<lfloor>x / 100 + 1 / 2\<rfloor>"
  have lo: "of_int n \<le> x / 100 + 1 / 2" and hi: "x / 100 + 1 / 2 < of_int n + 1"
    unfolding n_def by linarith+
  from lo hi show a: "\<bar>of_int (100 * \<lfloor>x / 100 + 1 / 2\<rfloor>) - x\<bar> \<le> 50"
    unfolding n_def [symmetric] by simp
  consider "k = n" | "n + 1 \<le> k" | "k \<le> n - 1"
    by linarith
  then have "\<bar>of_int (100 * n) - x\<bar> \<le> \<bar>of_int (100 * k) - x\<bar>"
  proof cases
    case 1
    then show ?thesis by simp
  next
    case 2
    then have "(of_int n :: real) + 1 \<le> of_int k"
      by (metis of_int_1 of_int_add of_int_le_iff)
    with lo hi show ?thesis by simp
  next
    case 3
    then have "(of_int k :: real) \<le> of_int n - 1"
      by (metis of_int_1 of_int_diff of_int_le_iff)
    with lo hi show ?thesis by simp
  qed
  then show "\<bar>of_int (100 * \<lfloor>x / 100 + 1 / 2\<rfloor>) - x\<bar> \<le> \<bar>of_int (100 * k) - x\<bar>"
    unfolding n_def .
qed

text \<open>
  Claim C4. For inputs that pass the checks, the stake shown is
  \<open>Math.round(stake / 100) * 100\<close> of the stake computed: the stake form writes it to
  both stake fields when the inputs change, the calculator shows it as the recommended
  stake. For a finite stake \<open>x\<close> this is the multiple of 100 nearest to \<open>x\<close>: it is
  within 50 of \<open>x\<close>, and no multiple of 100 is nearer.
\<close>

theorem shown_stake_rounded:
  "(stake_valid (stake_bank m) (stake_odds m) (stake_prob m) \<longrightarrow>
      stakeInput (recalcWithFlag m)
        = js_toString (js_mul (Math_round (js_div
            (stake_kelly (stake_bank m) (stake_odds m) (stake_prob m) (stake_fraction m))
            (Num 100))) (Num 100))
      \<and> stakeDisplay (recalcWithFlag m)
        = formatNumberWithSpaces (js_mul (Math_round (js_div
            (stake_kelly (stake_bank m) (stake_odds m) (stake_prob m) (stake_fraction m))
            (Num 100))) (Num 100))
      \<and> (stake_kelly (stake_bank m) (stake_odds m) (stake_prob m) (stake_fraction m) = Num x \<longrightarrow>
           stakeInput (recalcWithFlag m) = show_int (100 * \<lfloor>x / 100 + 1 / 2\<rfloor>)))
   \<and> (calculate_inputs s = Inr ((odds, prob, bank, fraction), s1) \<longrightarrow>
        fst (calculate s)
        \<and> recommendedStake (snd (calculate s))
            = js_mul (Math_round (js_div (snd (calc_kelly odds prob bank fraction)) (Num 100)))
                (Num 100)
        \<and> (snd (calc_kelly odds prob bank fraction) = Num y \<longrightarrow>
             recommendedStake (snd (calculate s)) = Num (of_int (100 * \<lfloor>y / 100 + 1 / 2\<rfloor>))))
   \<and> \<bar>of_int (100 * \<lfloor>x / 100 + 1 / 2\<rfloor>) - x\<bar> \<le> 50
   \<and> \<bar>of_int (100 * \<lfloor>x / 100 + 1 / 2\<rfloor>) - x\<bar> \<le> \<bar>of_int (100 * k) - x\<bar>"
proof -
  have 1: "stake_valid (stake_bank m) (stake_odds m) (stake_prob m) \<longrightarrow>
      stakeInput (recalcWithFlag m)
        = js_toString (js_mul (Math_round (js_div
            (stake_kelly (stake_bank m) (stake_odds m) (stake_prob m) (stake_fraction m))
            (Num 100))) (Num 100))
      \<and> stakeDisplay (recalcWithFlag m)
        = formatNumberWithSpaces (js_mul (Math_round (js_div
            (stake_kelly (stake_bank m) (stake_odds m) (stake_prob m) (stake_fraction m))
            (Num 100))) (Num 100))
      \<and> (stake_kelly (stake_bank m) (stake_odds m) (stake_prob m) (stake_fraction m) = Num x \<longrightarrow>
           stakeInput (recalcWithFlag m) = show_int (100 * \<lfloor>x / 100 + 1 / 2\<rfloor>))"
  proof (intro impI conjI)
    assume v: "stake_valid (stake_bank m) (stake_odds m) (stake_prob m)"
    from v show "stakeInput (recalcWithFlag m)
        = js_toString (js_mul (Math_round (js_div
            (stake_kelly (stake_bank m) (stake_odds m) (stake_prob m) (stake_fraction m))
            (Num 100))) (Num 100))"
      by (simp add: recalcWithFlag_fills roundToHundreds_def)
    from v show "stakeDisplay (recalcWithFlag m)
        = formatNumberWithSpaces (js_mul (Math_round (js_div
            (stake_kelly (stake_bank m) (stake_odds m) (stake_prob m) (stake_fraction m))
            (Num 100))) (Num 100))"
      by (simp add: recalcWithFlag_fills roundToHundreds_def)
    assume "stake_kelly (stake_bank m) (stake_odds m) (stake_prob m) (stake_fraction m) = Num x"
    with v have "stakeInput (recalcWithFlag m)
        = js_toString (Num (of_int (100 * \<lfloor>x / 100 + 1 / 2\<rfloor>)))"
      by (simp only: recalcWithFlag_fills roundToHundreds_Num if_True)
    then show "stakeInput (recalcWithFlag m) = show_int (100 * \<lfloor>x / 100 + 1 / 2\<rfloor>)"
      by (simp only: js_toString.simps floor_of_int)
  qed
  have 2: "calculate_inputs s = Inr ((odds, prob, bank, fraction), s1) \<longrightarrow>
        fst (calculate s)
        \<and> recommendedStake (snd (calculate s))
            = js_mul (Math_round (js_div (snd (calc_kelly odds prob bank fraction)) (Num 100)))
                (Num 100)
        \<and> (snd (calc_kelly odds prob bank fraction) = Num y \<longrightarrow>
             recommendedStake (snd (calculate s)) = Num (of_int (100 * \<lfloor>y / 100 + 1 / 2\<rfloor>)))"
    by (simp add: calculate_shows)
  from 1 2 nearest_hundred(1) [of x] nearest_hundred(2) [of x k] show ?thesis by blast
qed

text \<open>
  A bank of 1000 at odds 2.5 and 60%: the stake 333.33 is shown as 300 by the stake
  form. At odds 2 the calculator computes 200 and shows 200.
\<close>

theorem shown_stake_rounded_witness:
  "stake_valid (stake_bank (main_page_with ''1000'' ''2.5'' ''60'' ''1''))
     (stake_odds (main_page_with ''1000'' ''2.5'' ''60'' ''1''))
     (stake_prob (main_page_with ''1000'' ''2.5'' ''60'' ''1''))
   \<and> stake_kelly (stake_bank (main_page_with ''1000'' ''2.5'' ''60'' ''1''))
       (stake_odds (main_page_with ''1000'' ''2.5'' ''60'' ''1''))
       (stake_prob (main_page_with ''1000'' ''2.5'' ''60'' ''1''))
       (stake_fraction (main_page_with ''1000'' ''2.5'' ''60'' ''1'')) = Num (1000 / 3)
   \<and> stakeInput (recalcWithFlag (main_page_with ''1000'' ''2.5'' ''60'' ''1'')) = ''300''
   \<and> snd (calc_kelly (Num 2) (Num 60) (Num 1000) (Num 1)) = Num 200
   \<and> fst (calculate (calc_page_with ''1000'' ''2'' ''60'' ''1''))
   \<and> recommendedStake (snd (calculate (calc_page_with ''1000'' ''2'' ''60'' ''1''))) = Num 200"
proof -
  have v: "stake_valid (stake_bank (main_page_with ''1000'' ''2.5'' ''60'' ''1''))
     (stake_odds (main_page_with ''1000'' ''2.5'' ''60'' ''1''))
     (stake_prob (main_page_with ''1000'' ''2.5'' ''60'' ''1''))"
    by (simp add: main_example_reads stake_valid_Num)
  have k: "stake_kelly (stake_bank (main_page_with ''1000'' ''2.5'' ''60'' ''1''))
       (stake_odds (main_page_with ''1000'' ''2.5'' ''60'' ''1''))
       (stake_prob (main_page_with ''1000'' ''2.5'' ''60'' ''1''))
       (stake_fraction (main_page_with ''1000'' ''2.5'' ''60'' ''1'')) = Num (1000 / 3)"
    by (simp add: main_example_reads stake_kelly_Num)
  have c: "snd (calc_kelly (Num 2) (Num 60) (Num 1000) (Num 1)) = Num 200"
    by (simp add: calc_kelly_Num)
  have f: "100 * \<lfloor>(1000 / 3 :: real) / 100 + 1 / 2\<rfloor> = 300"
    "100 * \<lfloor>(200 :: real) / 100 + 1 / 2\<rfloor> = 200"
    by simp_all
  have d: "show_int 300 = ''300''"
    by (simp add: show_int_def show_nat.simps digit_char_def)
  note t = shown_stake_rounded [of "main_page_with ''1000'' ''2.5'' ''60'' ''1''" "1000 / 3"
      "calc_page_with ''1000'' ''2'' ''60'' ''1''" "Num 2" "Num 60" "Num 1000" "Num 1"
      "calc_page_with ''1000'' ''2'' ''60'' ''1''" 200 3]
  from t v k have "stakeInput (recalcWithFlag (main_page_with ''1000'' ''2.5'' ''60'' ''1''))
      = show_int (100 * \<lfloor>(1000 / 3 :: real) / 100 + 1 / 2\<rfloor>)"
    by blast
  then have 1: "stakeInput (recalcWithFlag (main_page_with ''1000'' ''2.5'' ''60'' ''1'')) = ''300''"
    by (simp only: f d)
  from t calc_example_inputs c
  have 2: "fst (calculate (calc_page_with ''1000'' ''2'' ''60'' ''1''))"
    and "recommendedStake (snd (calculate (calc_page_with ''1000'' ''2'' ''60'' ''1'')))
      = Num (of_int (100 * \<lfloor>(200 :: real) / 100 + 1 / 2\<rfloor>))"
    by blast+
  then have 3: "recommendedStake (snd (calculate (calc_page_with ''1000'' ''2'' ''60'' ''1''))) = Num 200"
    by (simp only: f) simp
  from v k 1 c 2 3 show ?thesis by blast
qed

subsection \<open>The multiplier is not clamped\<close>

text \<open>
  Claim C5, as amended. What the code clamps to the interval from 0 to 1 is the full
  Kelly fraction \<open>(p * odds - 1) / (odds - 1)\<close>. The multiplier chosen by the user is
  used as it is read: for finite numbers that pass the checks, the stake is the
  bankroll times the clamped Kelly fraction times the multiplier, whatever the
  multiplier. So the stake is that of the clamped multiplier when the multiplier lies
  between 0 and 1, and \<open>fraction\<close> times the stake of the multiplier 1 in general.
\<close>

theorem fraction_not_clamped:
  "(stake_valid (Num bank) (Num odds) (Num prob) \<and> 101 / 100 \<le> codds \<longrightarrow>
      (\<exists>k. 0 \<le> k \<and> k \<le> 1
         \<and> k = max 0 (min ((prob / 100 * odds - 1) / (odds - 1)) 1)
         \<and> stake_kelly (Num bank) (Num odds) (Num prob) (Num fraction) = Num (bank * k * fraction))
      \<and> (\<exists>k. 0 \<le> k \<and> k \<le> 1
         \<and> k = max 0 (min ((cprob / 100 * codds - 1) / (codds - 1)) 1)
         \<and> snd (calc_kelly (Num codds) (Num cprob) (Num cbank) (Num fraction))
             = Num (cbank * k * fraction))
      \<and> (0 \<le> fraction \<and> fraction \<le> 1 \<longrightarrow>
           stake_kelly (Num bank) (Num odds) (Num prob) (Num fraction)
             = stake_kelly (Num bank) (Num odds) (Num prob) (Num (max 0 (min fraction 1)))
           \<and> calc_kelly (Num codds) (Num cprob) (Num cbank) (Num fraction)
             = calc_kelly (Num codds) (Num cprob) (Num cbank) (Num (max 0 (min fraction 1)))))"
proof (intro impI)
  assume a: "stake_valid (Num bank) (Num odds) (Num prob) \<and> 101 / 100 \<le> codds"
  then have o: "odds \<noteq> 1" and c: "codds \<noteq> 1"
    by (auto simp: stake_valid_Num)
  have 1: "\<exists>k. 0 \<le> k \<and> k \<le> 1
         \<and> k = max 0 (min ((prob / 100 * odds - 1) / (odds - 1)) 1)
         \<and> stake_kelly (Num bank) (Num odds) (Num prob) (Num fraction) = Num (bank * k * fraction)"
    by (simp add: stake_kelly_Num [OF o])
  have 2: "\<exists>k. 0 \<le> k \<and> k \<le> 1
         \<and> k = max 0 (min ((cprob / 100 * codds - 1) / (codds - 1)) 1)
         \<and> snd (calc_kelly (Num codds) (Num cprob) (Num cbank) (Num fraction))
             = Num (cbank * k * fraction)"
    by (simp add: calc_kelly_Num [OF c])
  have 3: "0 \<le> fraction \<and> fraction \<le> 1 \<longrightarrow>
           stake_kelly (Num bank) (Num odds) (Num prob) (Num fraction)
             = stake_kelly (Num bank) (Num odds) (Num prob) (Num (max 0 (min fraction 1)))
           \<and> calc_kelly (Num codds) (Num cprob) (Num cbank) (Num fraction)
             = calc_kelly (Num codds) (Num cprob) (Num cbank) (Num (max 0 (min fraction 1)))"
    by (simp add: max_def min_def)
  from 1 2 3 show "(\<exists>k. 0 \<le> k \<and> k \<le> 1
         \<and> k = max 0 (min ((prob / 100 * odds - 1) / (odds - 1)) 1)
         \<and> stake_kelly (Num bank) (Num odds) (Num prob) (Num fraction) = Num (bank * k * fraction))
      \<and> (\<exists>k. 0 \<le> k \<and> k \<le> 1
         \<and> k = max 0 (min ((cprob / 100 * codds - 1) / (codds - 1)) 1)
         \<and> snd (calc_kelly (Num codds) (Num cprob) (Num cbank) (Num fraction))
             = Num (cbank * k * fraction))
      \<and> (0 \<le> fraction \<and> fraction \<le> 1 \<longrightarrow>
           stake_kelly (Num bank) (Num odds) (Num prob) (Num fraction)
             = stake_kelly (Num bank) (Num odds) (Num prob) (Num (max 0 (min fraction 1)))
           \<and> calc_kelly (Num codds) (Num cprob) (Num cbank) (Num fraction)
             = calc_kelly (Num codds) (Num cprob) (Num cbank) (Num (max 0 (min fraction 1))))"
    by blast
qed

text \<open>
  A bank of 1000 at odds 2 and 60% has the Kelly fraction 0.2; with the multiplier 0.5
  the stake is 100 in both computations.
\<close>

theorem fraction_not_clamped_witness:
  "stake_valid (Num 1000) (Num 2) (Num 60)
   \<and> (0::real) \<le> 1 / 2 \<and> (1 / 2 :: real) \<le> 1
   \<and> stake_kelly (Num 1000) (Num 2) (Num 60) (Num (1 / 2)) = Num 100
   \<and> snd (calc_kelly (Num 2) (Num 60) (Num 1000) (Num (1 / 2))) = Num 100
   \<and> stake_kelly (Num 1000) (Num 2) (Num 60) (Num (max 0 (min (1 / 2) 1))) = Num 100"
proof -
  have v: "stake_valid (Num 1000) (Num 2) (Num 60) \<and> (101 / 100 :: real) \<le> 2"
    by (simp add: stake_valid_Num)
  note t = fraction_not_clamped [of 1000 2 60 2 "1 / 2" 60 1000, rule_format, OF v]
  from t have 1: "stake_kelly (Num 1000) (Num 2) (Num 60) (Num (1 / 2)) = Num 100"
    and 2: "snd (calc_kelly (Num 2) (Num 60) (Num 1000) (Num (1 / 2))) = Num 100"
    by auto
  from t 1 have 3: "stake_kelly (Num 1000) (Num 2) (Num 60) (Num (max 0 (min (1 / 2) 1))) = Num 100"
    by simp
  from v 1 2 3 show ?thesis by simp
qed

text \<open>
  The claim as stated fails: with the multiplier 2, whose clamped value is 1, the stake
  is 400 and not the 200 of the multiplier 1, in both computations; the stake form then
  shows 400.
\<close>

theorem fraction_not_clamped_counterexample:
  "stake_valid (Num 1000) (Num 2) (Num 60)
   \<and> stake_kelly (Num 1000) (Num 2) (Num 60) (Num 2) = Num 400
   \<and> stake_kelly (Num 1000) (Num 2) (Num 60) (Num (max 0 (min 2 1))) = Num 200
   \<and> snd (calc_kelly (Num 2) (Num 60) (Num 1000) (Num 2)) = Num 400
   \<and> snd (calc_kelly (Num 2) (Num 60) (Num 1000) (Num (max 0 (min 2 1)))) = Num 200
   \<and> stakeInput (recalcWithFlag (main_page_with ''1000'' ''2'' ''60'' ''2'')) = ''400''"
proof -
  have r: "stake_bank (main_page_with ''1000'' ''2'' ''60'' ''2'') = Num 1000"
    "stake_odds (main_page_with ''1000'' ''2'' ''60'' ''2'') = Num 2"
    "stake_prob (main_page_with ''1000'' ''2'' ''60'' ''2'') = Num 60"
    "stake_fraction (main_page_with ''1000'' ''2'' ''60'' ''2'') = Num 2"
    by (simp_all add: stake_bank_def stake_odds_def stake_prob_def stake_fraction_def
        main_page_with_def getFloatValue_def strip_ws_def is_ws_def or_zero_def parse_examples)
  have k: "stake_kelly (Num 1000) (Num 2) (Num 60) (Num 2) = Num 400"
    by (simp add: stake_kelly_Num)
  have "stakeInput (recalcWithFlag (main_page_with ''1000'' ''2'' ''60'' ''2''))
        = js_toString (roundToHundreds (stake_kelly (Num 1000) (Num 2) (Num 60) (Num 2)))"
    using r by (simp add: recalcWithFlag_def calculateStake_def stake_bank_def stake_odds_def
        stake_prob_def stake_fraction_def stake_valid_Num Let_def main_page_with_def)
  then have s: "stakeInput (recalcWithFlag (main_page_with ''1000'' ''2'' ''60'' ''2'')) = ''400''"
    by (simp add: k roundToHundreds_def show_400)
  show ?thesis
    by (simp add: stake_valid_Num stake_kelly_Num calc_kelly_Num s)
qed

subsection \<open>The default probability\<close>

text \<open>
  Claim C6, as amended. For odds that are a finite number of at least 1.01 the default
  probability is \<open>min (105 / odds) 99.9\<close> percent, so it is capped at 99.9%; when it
  is below the cap, the return \<open>p / 100 * odds - 1\<close> at this probability is the
  default ROI of 5%. For odds below 1.01, and for odds that are missing or not a
  number, the result is \<open>null\<close>. For odds read as positive infinity the result is
  0, which is neither \<open>null\<close> nor a probability with a return of 5%.
\<close>

theorem default_probability_roi:
  "(parseFloat (calc_odds s) = Num odds \<and> 101 / 100 \<le> odds
      \<and> p = min ((1 + 5 / 100) / odds * 100) (999 / 10) \<longrightarrow>
      calculateDefaultProbability s = Some (Num p)
      \<and> p \<le> 999 / 10
      \<and> (p < 999 / 10 \<longrightarrow> p / 100 * odds - 1 = 5 / 100))
   \<and> (parseFloat (calc_odds s) = NaN \<or> js_lt (parseFloat (calc_odds s)) (Num (101 / 100)) \<longrightarrow>
        calculateDefaultProbability s = None)
   \<and> (parseFloat (calc_odds s) = PosInf \<longrightarrow> calculateDefaultProbability s = Some (Num 0))"
proof (intro conjI impI)
  assume a: "parseFloat (calc_odds s) = Num odds \<and> 101 / 100 \<le> odds
      \<and> p = min ((1 + 5 / 100) / odds * 100) (999 / 10)"
  then have pos: "0 < odds" by simp
  from a have p: "p = min (105 / odds) (999 / 10)" by simp
  from a show "calculateDefaultProbability s = Some (Num p)"
    by (simp add: default_probability_Num)
  show "p \<le> 999 / 10"
    by (simp add: p)
  assume "p < 999 / 10"
  then have "p = 105 / odds"
    by (simp add: p min_def split: if_splits)
  then show "p / 100 * odds - 1 = 5 / 100"
    using pos by simp
next
  assume "parseFloat (calc_odds s) = NaN \<or> js_lt (parseFloat (calc_odds s)) (Num (101 / 100))"
  then have "\<not> js_ge (parseFloat (calc_odds s)) (Num (101 / 100))"
    by (cases "parseFloat (calc_odds s)") (auto simp: js_ge_def js_le_def)
  then show "calculateDefaultProbability s = None"
    by (rule default_probability_None)
next
  assume "parseFloat (calc_odds s) = PosInf"
  then show "calculateDefaultProbability s = Some (Num 0)"
    by (rule default_probability_PosInf)
qed

text \<open>
  At odds 2 the default is 52.5%, below the cap, and \<open>0.525 * 2 - 1\<close> is 5%; at odds
  1 the result is \<open>null\<close>.
\<close>

theorem default_probability_roi_witness:
  "parseFloat (calc_odds (calc_page_with ''1000'' ''2'' [] ''1'')) = Num 2
   \<and> calculateDefaultProbability (calc_page_with ''1000'' ''2'' [] ''1'') = Some (Num (105 / 2))
   \<and> (105 / 2 :: real) < 999 / 10
   \<and> (105 / 2 :: real) / 100 * 2 - 1 = 5 / 100
   \<and> js_lt (parseFloat (calc_odds (calc_page_with ''1000'' ''1'' [] ''1''))) (Num (101 / 100))
   \<and> calculateDefaultProbability (calc_page_with ''1000'' ''1'' [] ''1'') = None"
proof -
  have a: "parseFloat (calc_odds (calc_page_with ''1000'' ''2'' [] ''1'')) = Num 2"
    by (simp add: calc_page_with_def parse_examples)
  have b: "js_lt (parseFloat (calc_odds (calc_page_with ''1000'' ''1'' [] ''1''))) (Num (101 / 100))"
    by (simp add: calc_page_with_def parse_examples)
  from default_probability_roi [of "calc_page_with ''1000'' ''2'' [] ''1''" 2 "105 / 2"] a
  have 1: "calculateDefaultProbability (calc_page_with ''1000'' ''2'' [] ''1'') = Some (Num (105 / 2))"
    by simp
  from default_probability_roi [of "calc_page_with ''1000'' ''1'' [] ''1''" 1 0] b
  have 2: "calculateDefaultProbability (calc_page_with ''1000'' ''1'' [] ''1'') = None"
    by blast
  from a 1 b 2 show ?thesis by simp
qed

text \<open>
  The claim as stated fails for the odds text \<open>Infinity\<close>: the odds read are at least
  1.01, the result is 0, which is not \<open>null\<close> and is below the cap, and the return
  \<open>0 / 100 * odds - 1\<close> at these odds is NaN, not 5%.
\<close>

theorem default_probability_roi_counterexample:
  "parseFloat (calc_odds (calc_page_with ''1000'' ''Infinity'' [] ''1'')) = PosInf
   \<and> js_ge (parseFloat (calc_odds (calc_page_with ''1000'' ''Infinity'' [] ''1''))) (Num (101 / 100))
   \<and> calculateDefaultProbability (calc_page_with ''1000'' ''Infinity'' [] ''1'') = Some (Num 0)
   \<and> js_lt (Num 0) (Num (999 / 10))
   \<and> js_sub (js_mul (js_div (Num 0) (Num 100))
         (parseFloat (calc_odds (calc_page_with ''1000'' ''Infinity'' [] ''1''))))
       (Num 1) = NaN
   \<and> NaN \<noteq> js_div DEFAULT_ROI (Num 100)"
proof -
  have p: "parseFloat ''Infinity'' = PosInf"
    by (simp add: parse_eval)
  show ?thesis
    by (simp add: calc_page_with_def p calculateDefaultProbability_def DEFAULT_ROI_def Let_def
        js_ge_def js_le_def js_sub_def inf_of_sign_def)
qed

subsection \<open>A stake entered by hand\<close>

text \<open>
  Claim C7. Once the flag \<open>_userModified\<close> is set, a run of \<open>calculateStake\<close>, and
  any number of runs, leaves the two stake fields and the flag as they are, whether or
  not the inputs pass the check. Typing in the stake display sets the flag. A change of
  the bank, the odds, the probability or the multiplier clears the flag and fills both
  stake fields from the new inputs: with the rounded stake if they pass the check, with
  0 if not.
\<close>

theorem manual_stake_kept:
  "(userModified s \<longrightarrow>
      stakeInput (calculateStake s) = stakeInput s
      \<and> stakeDisplay (calculateStake s) = stakeDisplay s
      \<and> userModified (calculateStake s)
      \<and> stakeInput ((calculateStake ^^ n) s) = stakeInput s
      \<and> stakeDisplay ((calculateStake ^^ n) s) = stakeDisplay s)
   \<and> userModified (main_step (EditStake v) s)
   \<and> stakeDisplay (main_step (EditStake v) s) = v
   \<and> (e \<in> {EditBank v, EditOdds v, EditProb v, SelectKelly v} \<longrightarrow>
        \<not> userModified (main_step e s)
        \<and> stakeInput (main_step e s)
            = (if stake_valid (stake_bank (main_step e s)) (stake_odds (main_step e s))
                    (stake_prob (main_step e s))
               then js_toString (roundToHundreds
                      (stake_kelly (stake_bank (main_step e s)) (stake_odds (main_step e s))
                         (stake_prob (main_step e s)) (stake_fraction (main_step e s))))
               else ''0'')
        \<and> stakeDisplay (main_step e s)
            = (if stake_valid (stake_bank (main_step e s)) (stake_odds (main_step e s))
                    (stake_prob (main_step e s))
               then formatNumberWithSpaces (roundToHundreds
                      (stake_kelly (stake_bank (main_step e s)) (stake_odds (main_step e s))
                         (stake_prob (main_step e s)) (stake_fraction (main_step e s))))
               else ''0''))"
proof -
  have reads: "stake_bank (recalcWithFlag t) = stake_bank t"
    "stake_odds (recalcWithFlag t) = stake_odds t"
    "stake_prob (recalcWithFlag t) = stake_prob t"
    "stake_fraction (recalcWithFlag t) = stake_fraction t" for t
    by (simp_all add: recalcWithFlag_def stake_bank_def stake_odds_def stake_prob_def
        stake_fraction_def)
  have 1: "userModified s \<longrightarrow>
      stakeInput (calculateStake s) = stakeInput s
      \<and> stakeDisplay (calculateStake s) = stakeDisplay s
      \<and> userModified (calculateStake s)
      \<and> stakeInput ((calculateStake ^^ n) s) = stakeInput s
      \<and> stakeDisplay ((calculateStake ^^ n) s) = stakeDisplay s"
    by (simp add: calculateStake_modified calculateStake_modified_funpow)
  have 2: "userModified (main_step (EditStake v) s)"
    "stakeDisplay (main_step (EditStake v) s) = v"
    by (simp_all add: stakeDisplay_input_def)
  have 3: "\<not> userModified (main_step e s)
        \<and> stakeInput (main_step e s)
            = (if stake_valid (stake_bank (main_step e s)) (stake_odds (main_step e s))
                    (stake_prob (main_step e s))
               then js_toString (roundToHundreds
                      (stake_kelly (stake_bank (main_step e s)) (stake_odds (main_step e s))
                         (stake_prob (main_step e s)) (stake_fraction (main_step e s))))
               else ''0'')
        \<and> stakeDisplay (main_step e s)
            = (if stake_valid (stake_bank (main_step e s)) (stake_odds (main_step e s))
                    (stake_prob (main_step e s))
               then formatNumberWithSpaces (roundToHundreds
                      (stake_kelly (stake_bank (main_step e s)) (stake_odds (main_step e s))
                         (stake_prob (main_step e s)) (stake_fraction (main_step e s))))
               else ''0'')"
    if "e \<in> {EditBank v, EditOdds v, EditProb v, SelectKelly v}"
  proof -
    from that obtain t where t: "main_step e s = recalcWithFlag t"
      by auto
    show ?thesis
      unfolding t reads by (simp add: recalcWithFlag_fills)
  qed
  from 1 2 3 show ?thesis by blast
qed

text \<open>
  A page whose stake was typed as 1 234: recalculation keeps it; a change of the bank to
  1000 (odds 2, 60%, full multiplier) then fills in 200.
\<close>

theorem manual_stake_kept_witness:
  "userModified typed_page
   \<and> stakeInput typed_page = ''1234''
   \<and> stakeDisplay typed_page = ''1 234''
   \<and> stakeInput (calculateStake typed_page) = ''1234''
   \<and> stakeDisplay (calculateStake typed_page) = ''1 234''
   \<and> EditBank ''1000'' \<in> {EditBank ''1000'', EditOdds ''1000'', EditProb ''1000'', SelectKelly ''1000''}
   \<and> \<not> userModified (main_step (EditBank ''1000'') typed_page)
   \<and> stakeInput (main_step (EditBank ''1000'') typed_page) = ''200''
   \<and> stakeDisplay (main_step (EditBank ''1000'') typed_page) = ''200''"
proof -
  note t = manual_stake_kept [of typed_page 1 "''1000''" "EditBank ''1000''"]
  have u: "userModified typed_page" "stakeInput typed_page = ''1234''"
    "stakeDisplay typed_page = ''1 234''"
    by (simp_all add: typed_page_def stakeDisplay_input_def main_page_with_def strip_ws_def
        is_ws_def)
  have e: "EditBank ''1000'' \<in> {EditBank ''1000'', EditOdds ''1000'', EditProb ''1000'', SelectKelly ''1000''}"
    by simp
  have r: "stake_bank (main_step (EditBank ''1000'') typed_page) = Num 1000"
    "stake_odds (main_step (EditBank ''1000'') typed_page) = Num 2"
    "stake_prob (main_step (EditBank ''1000'') typed_page) = Num 60"
    "stake_fraction (main_step (EditBank ''1000'') typed_page) = Num 1"
    by (simp_all add: recalcWithFlag_def stake_bank_def stake_odds_def stake_prob_def
        stake_fraction_def typed_page_def stakeDisplay_input_def main_page_with_def
        getFloatValue_def strip_ws_def is_ws_def or_zero_def parse_examples)
  have k: "roundToHundreds (stake_kelly (Num 1000) (Num 2) (Num 60) (Num 1)) = Num 200"
    by (simp add: stake_kelly_Num roundToHundreds_def)
  have d: "js_toString (Num 200) = ''200''" "formatNumberWithSpaces (Num 200) = ''200''"
    by (simp_all add: formatNumberWithSpaces_def show_int_def show_nat.simps digit_char_def
        group_here_def is_digit_def is_word_def)
  from t u have 1: "stakeInput (calculateStake typed_page) = ''1234''"
    "stakeDisplay (calculateStake typed_page) = ''1 234''"
    by simp_all
  from t e have 2: "\<not> userModified (main_step (EditBank ''1000'') typed_page)"
    by blast
  from t e have "stakeInput (main_step (EditBank ''1000'') typed_page) = js_toString (Num 200)"
    "stakeDisplay (main_step (EditBank ''1000'') typed_page) = formatNumberWithSpaces (Num 200)"
    unfolding r k by (simp_all add: stake_valid_Num)
  then have 3: "stakeInput (main_step (EditBank ''1000'') typed_page) = ''200''"
    "stakeDisplay (main_step (EditBank ''1000'') typed_page) = ''200''"
    by (simp_all only: d)
  from u 1 e 2 3 show ?thesis by blast
qed

subsection \<open>The telephone mask\<close>

lemma phone_mask_layout: "phone_mask s = ''+7 '' @ phone_layout (phone_digits s)"
  by (simp add: phone_mask_def phone_digits_def phone_layout_def Let_def substring_def)

lemma phone_digits_all: "\<forall>c \<in> set (phone_digits s). is_digit c"
  by (auto simp: phone_digits_def strip_non_digits_def substring_from_def Let_def dest: in_set_dropD)

lemma filter_all_digits: "\<forall>c \<in> set d. is_digit c \<Longrightarrow> filter is_digit d = d"
  by (induction d) auto

lemma take_10_parts:
  "take 3 d @ take 3 (drop 3 d) @ take 2 (drop 6 d) @ take 2 (drop 8 d) = take 10 d"
proof -
  have "take 10 d = take (3 + (3 + (2 + 2))) d" by simp
  also have "\<dots> = take 3 d @ take 3 (drop 3 d) @ take 2 (drop 6 d) @ take 2 (drop 8 d)"
    by (simp only: take_add drop_drop) simp
  finally show ?thesis by simp
qed

lemma layout_digits:
  assumes "\<forall>c \<in> set d. is_digit c"
  shows "filter is_digit (phone_layout d) = take 10 d"
proof -
  have f: "filter is_digit (take k (drop j d)) = take k (drop j d)" for k j
    using assms by (intro filter_all_digits) (auto dest: in_set_takeD in_set_dropD)
  have f0: "filter is_digit (take k d) = take k d" for k
    using f [of k 0] by simp
  have f1: "filter is_digit (drop j d) = drop j d" for j
    using assms by (intro filter_all_digits) (auto dest: in_set_dropD)
  have e1: "\<not> 3 \<le> length d \<Longrightarrow> take 3 (drop 3 d) = []"
    and e2: "\<not> 6 \<le> length d \<Longrightarrow> take 2 (drop 6 d) = []"
    and e3: "\<not> 8 \<le> length d \<Longrightarrow> take 2 (drop 8 d) = []"
    and e0: "\<not> 0 < length d \<Longrightarrow> take 3 d = []"
    by simp_all
  have "filter is_digit (phone_layout d)
        = take 3 d @ take 3 (drop 3 d) @ take 2 (drop 6 d) @ take 2 (drop 8 d)"
    using e0 e1 e2 e3 by (simp add: phone_layout_def f f0 f1 is_digit_def)
  then show ?thesis by (simp only: take_10_parts)
qed

lemma layout_take_10: "phone_layout (take 10 d) = phone_layout d"
  by (simp add: phone_layout_def drop_take min_def)

lemma phone_digits_mask:
  "phone_digits (''+7 '' @ phone_layout d) = filter is_digit (phone_layout d)"
  by (simp add: phone_digits_def strip_non_digits_def substring_from_def is_digit_def)

lemma phone_mask_twice: "phone_mask (phone_mask s) = phone_mask s"
proof -
  let ?d = "phone_digits s"
  have d: "filter is_digit (phone_layout ?d) = take 10 ?d"
    by (rule layout_digits [OF phone_digits_all])
  have "phone_mask (phone_mask s) = ''+7 '' @ phone_layout (take 10 ?d)"
    by (simp only: phone_mask_layout phone_digits_mask d)
  then show ?thesis
    by (simp only: layout_take_10 phone_mask_layout)
qed

text \<open>
  Claim C8. The mask of the listener at lines 42 to 59 of scripts.js, which is also in
  the unnamed source file at lines 56 to 73, is idempotent: formatting a formatted text
  gives the same text,
  for the formatting function and for the listener that applies it. Every formatted
  text begins with \<open>+7 \<close> and has at most ten digits after this prefix.
\<close>

theorem phone_mask_idempotent:
  "phone_mask (phone_mask s) = phone_mask s
   \<and> starts_with (phone_mask s) ''+7 ''
   \<and> length (filter is_digit (drop 3 (phone_mask s))) \<le> 10
   \<and> phone_input (phone_input t) = phone_input t"
proof -
  have d: "filter is_digit (phone_layout (phone_digits s)) = take 10 (phone_digits s)"
    by (rule layout_digits [OF phone_digits_all])
  have 1: "phone_mask (phone_mask s) = phone_mask s"
    by (rule phone_mask_twice)
  have 2: "starts_with (phone_mask s) ''+7 ''"
    by (simp add: phone_mask_layout)
  have 3: "length (filter is_digit (drop 3 (phone_mask s))) \<le> 10"
    by (simp add: phone_mask_layout d)
  have 4: "phone_input (phone_input t) = phone_input t"
    by (simp add: phone_input_def phone_mask_twice)
  from 1 2 3 4 show ?thesis by simp
qed

subsection \<open>The second telephone listener\<close>

text \<open>
  The second listener gives the same text as long as at most ten digits remain after
  the dropped 7 or 8. With more digits it need not give a text of the mask: twelve
  digits typed at once come back as they are.
\<close>

lemma phone_mask_limited_same:
  "length (phone_digits s) \<le> 10 \<Longrightarrow> phone_mask_limited s = phone_mask s"
proof -
  have v: "(if 0 < length (strip_non_digits s)
            then (if hd (strip_non_digits s) = CHR ''7'' \<or> hd (strip_non_digits s) = CHR ''8''
                  then substring_from (strip_non_digits s) 1 else strip_non_digits s)
            else strip_non_digits s) = phone_digits s"
    by (simp add: phone_digits_def)
  assume "length (phone_digits s) \<le> 10"
  then have "\<not> 10 < length (phone_digits s)" by simp
  then show ?thesis
    unfolding phone_mask_limited_def phone_mask_def Let_def v
    by (simp add: phone_digits_def)
qed

lemma phone_mask_limited_raw: "phone_mask_limited ''123456789012'' = ''123456789012''"
  by (simp add: phone_mask_limited_def strip_non_digits_def is_digit_def substring_def
      substring_from_def Let_def)


subsection \<open>getFloatValue\<close>

lemma or_zero_not_NaN: "or_zero x \<noteq> NaN"
  by (cases x) (simp_all add: or_zero_def)

lemma or_zero_same: "x \<noteq> NaN \<Longrightarrow> or_zero x = x"
  by (cases x) (simp_all add: or_zero_def)

text \<open>
  Claim C9, as amended. \<open>getFloatValue\<close> has a result for every argument, and the
  result is never NaN. It is 0 for a missing element, for an empty value, and for a
  value that does not read as a number once its white space is removed and its first
  comma is replaced by a point. For any other value it is the number that
  \<open>parseFloat\<close> reads from the text so prepared; that number is finite unless the text
  reads as an infinity.
\<close>

theorem getFloatValue_never_NaN:
  "getFloatValue element \<noteq> NaN
   \<and> (element = None \<or> element = Some [] \<longrightarrow> getFloatValue element = Num 0)
   \<and> (element = Some v \<and> parseFloat (replace_comma (strip_ws v)) = NaN \<longrightarrow>
        getFloatValue element = Num 0)
   \<and> (element = Some v \<and> v \<noteq> [] \<and> parseFloat (replace_comma (strip_ws v)) \<noteq> NaN \<longrightarrow>
        getFloatValue element = parseFloat (replace_comma (strip_ws v)))
   \<and> (is_finite (getFloatValue element) \<or> getFloatValue element = PosInf
        \<or> getFloatValue element = NegInf)"
proof -
  have 1: "getFloatValue element \<noteq> NaN"
    by (simp add: getFloatValue_def or_zero_not_NaN split: option.splits)
  have 2: "element = None \<or> element = Some [] \<longrightarrow> getFloatValue element = Num 0"
    by (auto simp: getFloatValue_def)
  have 3: "element = Some v \<and> parseFloat (replace_comma (strip_ws v)) = NaN \<longrightarrow>
        getFloatValue element = Num 0"
    by (simp add: getFloatValue_def or_zero_def)
  have 4: "element = Some v \<and> v \<noteq> [] \<and> parseFloat (replace_comma (strip_ws v)) \<noteq> NaN \<longrightarrow>
        getFloatValue element = parseFloat (replace_comma (strip_ws v))"
    by (simp add: getFloatValue_def or_zero_same)
  have 5: "is_finite (getFloatValue element) \<or> getFloatValue element = PosInf
        \<or> getFloatValue element = NegInf"
    using 1 by (cases "getFloatValue element") simp_all
  from 1 2 3 4 5 show ?thesis by blast
qed

text \<open>
  A text with a space and a comma, a text that is no number, and a missing element.
\<close>

lemma getFloatValue_examples:
  "replace_comma (strip_ws ''1 234,5'') = ''1234.5''"
  "parseFloat ''1234.5'' = Num (2469 / 2)"
  "replace_comma (strip_ws ''abc'') = ''abc''"
  "parseFloat ''abc'' = NaN"
  by (simp_all add: strip_ws_def parse_eval)

theorem getFloatValue_never_NaN_witness:
  "getFloatValue (Some ''1 234,5'') = Num (2469 / 2)
   \<and> parseFloat (replace_comma (strip_ws ''abc'')) = NaN
   \<and> getFloatValue (Some ''abc'') = Num 0
   \<and> getFloatValue None = Num 0"
proof -
  have a: "''1 234,5'' \<noteq> []" "parseFloat (replace_comma (strip_ws ''1 234,5'')) \<noteq> NaN"
    "parseFloat (replace_comma (strip_ws ''1 234,5'')) = Num (2469 / 2)"
    by (simp_all add: getFloatValue_examples)
  have b: "parseFloat (replace_comma (strip_ws ''abc'')) = NaN"
    by (simp add: getFloatValue_examples)
  from getFloatValue_never_NaN [of "Some ''1 234,5''" "''1 234,5''"] a
  have 1: "getFloatValue (Some ''1 234,5'') = Num (2469 / 2)" by simp
  from getFloatValue_never_NaN [of "Some ''abc''" "''abc''"] b
  have 2: "getFloatValue (Some ''abc'') = Num 0" by simp
  from getFloatValue_never_NaN [of None "[]"]
  have 3: "getFloatValue None = Num 0" by simp
  from 1 b 2 3 show ?thesis by simp
qed

text \<open>
  The claim as stated fails: the result need not be finite. The text \<open>Infinity\<close>
  reads as positive infinity, which \<open>|| 0\<close> lets through.
\<close>

theorem getFloatValue_counterexample:
  "getFloatValue (Some ''Infinity'') = PosInf \<and> \<not> is_finite (getFloatValue (Some ''Infinity''))"
  by (simp add: getFloatValue_def strip_ws_def parse_eval or_zero_def)

subsection \<open>The alerts\<close>

lemma earliest_first:
  assumes "\<forall>y \<in> set xs. fst x \<le> fst y"
  shows "earliest (x # xs) = Some x"
proof (cases "earliest xs")
  case None
  then show ?thesis by simp
next
  case (Some y)
  with assms earliest_mem [OF Some] have "\<not> fst y < fst x" by auto
  with Some show ?thesis by simp
qed

lemma run_until_idle:
  assumes "earliest (timers s) = None \<or> (\<exists>due f. earliest (timers s) = Some (due, f) \<and> t < due)"
  shows "run_until t s = s\<lparr>now := max (now s) t\<rparr>"
  using assms by (subst run_until.simps) auto

lemma run_until_fire:
  assumes "earliest (timers s) = Some (due, f)" and "due \<le> t"
  shows "run_until t s
         = run_until t (run_callback f
             (s\<lparr>now := max (now s) due, timers := remove1 (due, f) (timers s)\<rparr>))"
  using assms by (subst run_until.simps) simp

lemma fold_fade_styles:
  "style_opacity (fold fade_msg ms s) a = (if a \<in> set ms then ''0'' else style_opacity s a)"
  "style_transition (fold fade_msg ms s) a
     = (if a \<in> set ms then ''opacity 0.5s ease'' else style_transition s a)"
  by (induction ms arbitrary: s) (simp_all add: fade_msg_def setTimeout_def)

lemma run_until_removes:
  assumes "timers s = map (\<lambda>m. (d, RemoveMsg m)) ms" and "d \<le> t"
  shows "document_alerts (run_until t s) = filter (\<lambda>x. x \<notin> set ms) (document_alerts s)
         \<and> style_opacity (run_until t s) = style_opacity s
         \<and> style_transition (run_until t s) = style_transition s
         \<and> timers (run_until t s) = []"
  using assms
proof (induction ms arbitrary: s)
  case Nil
  then show ?case by (simp add: run_until_idle)
next
  case (Cons m ms)
  let ?s' = "run_callback (RemoveMsg m)
      (s\<lparr>now := max (now s) d, timers := remove1 (d, RemoveMsg m) (timers s)\<rparr>)"
  have e: "earliest (timers s) = Some (d, RemoveMsg m)"
    unfolding Cons.prems(1) list.map by (rule earliest_first) auto
  have step: "run_until t s = run_until t ?s'"
    by (rule run_until_fire [OF e Cons.prems(2)])
  have t': "timers ?s' = map (\<lambda>m. (d, RemoveMsg m)) ms"
    by (simp add: Cons.prems(1))
  have f: "filter (\<lambda>x. x \<notin> set ms) (removeAll m xs) = filter (\<lambda>x. x \<notin> set (m # ms)) xs" for xs
    by (induction xs) auto
  from Cons.IH [OF t' Cons.prems(2)] show ?case
    unfolding step by (simp add: f)
qed

text \<open>
  Claim C10. After the handler of \<open>DOMContentLoaded\<close> has run on a page with no
  other timeout pending, every alert that was in the document stays there, with its
  style untouched, until 5000 ms have passed; from then on its opacity is 0 and its
  transition is \<open>opacity 0.5s ease\<close>; it stays in the document until 5500 ms have
  passed, and from then on no alert is left in the document.
\<close>

theorem alerts_dismissed:
  "timers s = [] \<longrightarrow>
     (t < now s + 5000 \<longrightarrow>
        document_alerts (run_until t (alerts_loaded s)) = document_alerts s
        \<and> style_opacity (run_until t (alerts_loaded s)) = style_opacity s
        \<and> style_transition (run_until t (alerts_loaded s)) = style_transition s)
     \<and> (now s + 5000 \<le> t \<and> t < now s + 5500 \<longrightarrow>
        document_alerts (run_until t (alerts_loaded s)) = document_alerts s
        \<and> (\<forall>a \<in> set (document_alerts s).
              style_opacity (run_until t (alerts_loaded s)) a = ''0''
              \<and> style_transition (run_until t (alerts_loaded s)) a = ''opacity 0.5s ease''))
     \<and> (now s + 5500 \<le> t \<longrightarrow>
        document_alerts (run_until t (alerts_loaded s)) = []
        \<and> (\<forall>a \<in> set (document_alerts s).
              style_opacity (run_until t (alerts_loaded s)) a = ''0''
              \<and> style_transition (run_until t (alerts_loaded s)) a = ''opacity 0.5s ease''))"
proof (intro impI)
  assume no: "timers s = []"
  show "(t < now s + 5000 \<longrightarrow>
        document_alerts (run_until t (alerts_loaded s)) = document_alerts s
        \<and> style_opacity (run_until t (alerts_loaded s)) = style_opacity s
        \<and> style_transition (run_until t (alerts_loaded s)) = style_transition s)
     \<and> (now s + 5000 \<le> t \<and> t < now s + 5500 \<longrightarrow>
        document_alerts (run_until t (alerts_loaded s)) = document_alerts s
        \<and> (\<forall>a \<in> set (document_alerts s).
              style_opacity (run_until t (alerts_loaded s)) a = ''0''
              \<and> style_transition (run_until t (alerts_loaded s)) a = ''opacity 0.5s ease''))
     \<and> (now s + 5500 \<le> t \<longrightarrow>
        document_alerts (run_until t (alerts_loaded s)) = []
        \<and> (\<forall>a \<in> set (document_alerts s).
              style_opacity (run_until t (alerts_loaded s)) a = ''0''
              \<and> style_transition (run_until t (alerts_loaded s)) a = ''opacity 0.5s ease''))"
  proof (cases "document_alerts s")
    case Nil
    with no show ?thesis
      by (simp add: alerts_loaded_def run_until_idle)
  next
    case (Cons a as)
    let ?A = "document_alerts s"
    let ?s1 = "alerts_loaded s"
    let ?s2 = "fold fade_msg ?A (?s1\<lparr>now := now s + 5000, timers := []\<rparr>)"
    have t1: "timers ?s1 = [(now s + 5000, Fade ?A)]" and n1: "now ?s1 = now s"
      and d1: "document_alerts ?s1 = ?A" and o1: "style_opacity ?s1 = style_opacity s"
      and r1: "style_transition ?s1 = style_transition s"
      using no Cons by (simp_all add: alerts_loaded_def setTimeout_def)
    have e1: "earliest (timers ?s1) = Some (now s + 5000, Fade ?A)"
      by (simp add: t1)
    have early: "run_until t ?s1 = ?s1\<lparr>now := max (now ?s1) t\<rparr>" if "t < now s + 5000"
      using that e1 by (intro run_until_idle) simp
    have fire: "run_until t ?s1 = run_until t ?s2" if "now s + 5000 \<le> t"
      using run_until_fire [OF e1 that] by (simp add: t1 n1)
    have t2: "timers ?s2 = map (\<lambda>m. (now s + 5500, RemoveMsg m)) ?A"
      and d2: "document_alerts ?s2 = ?A"
      by (simp_all add: timers_fold_fade d1)
    have st2: "\<forall>x \<in> set ?A. style_opacity ?s2 x = ''0''
        \<and> style_transition ?s2 x = ''opacity 0.5s ease''"
      by (simp add: fold_fade_styles)
    have "timers ?s2 = (now s + 5500, RemoveMsg a) # map (\<lambda>m. (now s + 5500, RemoveMsg m)) as"
      using t2 by (simp add: Cons)
    moreover have "earliest ((now s + 5500, RemoveMsg a) # map (\<lambda>m. (now s + 5500, RemoveMsg m)) as)
        = Some (now s + 5500, RemoveMsg a)"
      by (rule earliest_first) auto
    ultimately have e2: "earliest (timers ?s2) = Some (now s + 5500, RemoveMsg a)"
      by simp
    have mid: "run_until t ?s2 = ?s2\<lparr>now := max (now ?s2) t\<rparr>" if "t < now s + 5500"
      using that e2 by (intro run_until_idle) simp
    note late = run_until_removes [OF t2]
    have 1: "t < now s + 5000 \<longrightarrow>
        document_alerts (run_until t ?s1) = ?A
        \<and> style_opacity (run_until t ?s1) = style_opacity s
        \<and> style_transition (run_until t ?s1) = style_transition s"
      using early by (simp add: d1 o1 r1)
    have 2: "now s + 5000 \<le> t \<and> t < now s + 5500 \<longrightarrow>
        document_alerts (run_until t ?s1) = ?A
        \<and> (\<forall>x \<in> set ?A. style_opacity (run_until t ?s1) x = ''0''
              \<and> style_transition (run_until t ?s1) x = ''opacity 0.5s ease'')"
      using fire mid st2 by (simp add: d2)
    have 3: "now s + 5500 \<le> t \<longrightarrow>
        document_alerts (run_until t ?s1) = []
        \<and> (\<forall>x \<in> set ?A. style_opacity (run_until t ?s1) x = ''0''
              \<and> style_transition (run_until t ?s1) x = ''opacity 0.5s ease'')"
    proof
      assume l: "now s + 5500 \<le> t"
      then have "run_until t ?s1 = run_until t ?s2" by (simp add: fire)
      with late [OF l] st2 show "document_alerts (run_until t ?s1) = []
        \<and> (\<forall>x \<in> set ?A. style_opacity (run_until t ?s1) x = ''0''
              \<and> style_transition (run_until t ?s1) x = ''opacity 0.5s ease'')"
        by (simp add: d2)
    qed
    from 1 2 3 show ?thesis by blast
  qed
qed

text \<open>
  Two alerts at time 0: both are there and untouched at 4999 ms, faded and still there
  at 5000 ms and at 5499 ms, and gone at 5500 ms.
\<close>

theorem alerts_dismissed_witness:
  "timers two_alerts = []
   \<and> document_alerts (run_until 4999 (alerts_loaded two_alerts)) = [1, 2]
   \<and> style_opacity (run_until 4999 (alerts_loaded two_alerts)) 1 = ''1''
   \<and> document_alerts (run_until 5000 (alerts_loaded two_alerts)) = [1, 2]
   \<and> style_opacity (run_until 5000 (alerts_loaded two_alerts)) 1 = ''0''
   \<and> style_transition (run_until 5000 (alerts_loaded two_alerts)) 2 = ''opacity 0.5s ease''
   \<and> document_alerts (run_until 5499 (alerts_loaded two_alerts)) = [1, 2]
   \<and> document_alerts (run_until 5500 (alerts_loaded two_alerts)) = []"
proof -
  have h: "timers two_alerts = []" "now two_alerts = 0" "document_alerts two_alerts = [1, 2]"
    "style_opacity two_alerts = (\<lambda>_. ''1'')"
    by (simp_all add: two_alerts_def)
  from alerts_dismissed [of two_alerts 4999] h
  have 1: "document_alerts (run_until 4999 (alerts_loaded two_alerts)) = [1, 2]"
    "style_opacity (run_until 4999 (alerts_loaded two_alerts)) 1 = ''1''"
    by simp_all
  from alerts_dismissed [of two_alerts 5000] h
  have 2: "document_alerts (run_until 5000 (alerts_loaded two_alerts)) = [1, 2]"
    "style_opacity (run_until 5000 (alerts_loaded two_alerts)) 1 = ''0''"
    "style_transition (run_until 5000 (alerts_loaded two_alerts)) 2 = ''opacity 0.5s ease''"
    by simp_all
  from alerts_dismissed [of two_alerts 5499] h
  have 3: "document_alerts (run_until 5499 (alerts_loaded two_alerts)) = [1, 2]"
    by simp
  from alerts_dismissed [of two_alerts 5500] h
  have 4: "document_alerts (run_until 5500 (alerts_loaded two_alerts)) = []"
    by simp
  from h(1) 1 2 3 4 show ?thesis by simp
qed

end
